theory Spec2Isabelle
  imports Main "HOL-Library.Sublist"
begin

section \<open>Exceptions, assertions and string formatting\<close>

text \<open>
  Every \<^verbatim>\<open>raise\<close>, failed \<^verbatim>\<open>assert\<close> and library error of
  \<^verbatim>\<open>quantized_module.py\<close> is a value of \<open>exn\<close>. \<open>Exn c msg\<close> is an exception
  of class \<open>c\<close> raised with the message \<open>msg\<close> by the module itself; \<open>Lib c\<close> is an
  exception of class \<open>c\<close> raised by Python or numpy (an index out of range, a missing key,
  a concatenation of nothing), whose message text belongs to the library and is left out.
\<close>

datatype exn_class =
  ValueError | TypeError | AttributeError | AssertionError | IndexError | KeyError
  | OtherError string

datatype exn = Exn exn_class string | Lib exn_class

text \<open>
  Modelled from the spec: \<^verbatim>\<open>assert_true\<close> is imported from
  \<^verbatim>\<open>..common.debugging\<close>, which is not part of the sources. It raises an exception of
  the given class with the given message when the condition is false (the fault taxonomy:
  arity mismatch, a type error stating both counts; non-integral input, a value error).
  Where the caller passes no error class, the class is that helper's default, which the
  sources do not show: every function that relies on it takes it as the parameter
  \<open>dflt\<close> and passes it here.
\<close>

definition assert_true :: "bool \<Rightarrow> string \<Rightarrow> exn_class \<Rightarrow> exn + unit" where
  "assert_true condition on_error_msg error_type =
     (if condition then Inr () else Inl (Exn error_type on_error_msg))"

text \<open>
  The error class \<^verbatim>\<open>assert_true\<close> raises when the caller names none. The helper's
  declaration is not part of the sources; it raises what a failed Python \<^verbatim>\<open>assert\<close>
  raises, an AssertionError. The functions below take the class as their parameter
  \<open>dflt\<close>; this is the value the module runs with.
\<close>

definition default_error_type :: exn_class where
  "default_error_type = AssertionError"

text \<open>\<^verbatim>\<open>str(n)\<close> of a non-negative integer, as an f-string prints it.\<close>

definition digit_char :: "nat \<Rightarrow> char" where
  "digit_char d = ''0123456789'' ! d"

function str_nat :: "nat \<Rightarrow> string" where
  "str_nat n = (if n < 10 then [digit_char n] else str_nat (n div 10) @ [digit_char (n mod 10)])"
  by pat_completeness auto
termination
  by (relation "measure id") auto

declare str_nat.simps [simp del]

text \<open>\<^verbatim>\<open>sep.join(xs)\<close>.\<close>

fun join :: "string \<Rightarrow> string list \<Rightarrow> string" where
  "join sep [] = []"
| "join sep [x] = x"
| "join sep (x # y # ys) = x @ sep @ join sep (y # ys)"

text \<open>
  \<^verbatim>\<open>xs[i]\<close> on a Python sequence for any integer \<open>i\<close>: an index below zero counts
  from the end, and an index outside \<open>-len .. len - 1\<close> raises IndexError.
\<close>

definition py_index :: "'a list \<Rightarrow> int \<Rightarrow> exn + 'a" where
  "py_index xs i =
     (if 0 \<le> i \<and> i < int (length xs) then Inr (xs ! nat i)
      else if i < 0 \<and> - int (length xs) \<le> i then Inr (xs ! nat (int (length xs) + i))
      else Inl (Lib IndexError))"

section \<open>numpy arrays\<close>

text \<open>
  The element types the module's inputs can have. \<open>is_integer d\<close> is
  \<^verbatim>\<open>issubclass(d.type, numpy.integer)\<close> (the same as
  \<^verbatim>\<open>numpy.issubdtype(d, numpy.integer)\<close> on these types): the signed and unsigned
  integers, not the booleans. \<open>dtype_name d\<close> is \<^verbatim>\<open>str(d)\<close>.
\<close>

datatype dtype =
  Bool8 | Int8 | Int16 | Int32 | Int64 | UInt8 | UInt16 | UInt32 | UInt64
  | Float16 | Float32 | Float64 | Object

fun is_integer :: "dtype \<Rightarrow> bool" where
  "is_integer Int8 = True"
| "is_integer Int16 = True"
| "is_integer Int32 = True"
| "is_integer Int64 = True"
| "is_integer UInt8 = True"
| "is_integer UInt16 = True"
| "is_integer UInt32 = True"
| "is_integer UInt64 = True"
| "is_integer Bool8 = False"
| "is_integer Float16 = False"
| "is_integer Float32 = False"
| "is_integer Float64 = False"
| "is_integer Object = False"

fun dtype_name :: "dtype \<Rightarrow> string" where
  "dtype_name Bool8 = ''bool''"
| "dtype_name Int8 = ''int8''"
| "dtype_name Int16 = ''int16''"
| "dtype_name Int32 = ''int32''"
| "dtype_name Int64 = ''int64''"
| "dtype_name UInt8 = ''uint8''"
| "dtype_name UInt16 = ''uint16''"
| "dtype_name UInt32 = ''uint32''"
| "dtype_name UInt64 = ''uint64''"
| "dtype_name Float16 = ''float16''"
| "dtype_name Float32 = ''float32''"
| "dtype_name Float64 = ''float64''"
| "dtype_name Object = ''object''"

text \<open>
  An array is its element type, its shape and its elements in row-major order, as numpy
  stores it. The element values are of any type \<open>'a\<close>: no arithmetic on them is done
  in this module.
\<close>

record 'a ndarray =
  dtype :: dtype
  shape :: "nat list"
  data :: "'a list"

text \<open>\<^verbatim>\<open>a.shape[0]\<close>: a 0-dimensional array has the empty shape tuple.\<close>

definition shape0 :: "'a ndarray \<Rightarrow> exn + nat" where
  "shape0 a = (case shape a of [] \<Rightarrow> Inl (Lib IndexError) | n # s \<Rightarrow> Inr n)"

text \<open>The elements of row \<open>i\<close>: the \<open>i\<close>-th block of the size of one row.\<close>

definition row_data :: "'a ndarray \<Rightarrow> nat \<Rightarrow> 'a list" where
  "row_data a i = take (prod_list (tl (shape a))) (drop (i * prod_list (tl (shape a))) (data a))"

text \<open>\<^verbatim>\<open>a[i]\<close> for \<open>i\<close> taken from a \<^verbatim>\<open>range\<close> (so not negative).\<close>

definition getitem :: "'a ndarray \<Rightarrow> nat \<Rightarrow> exn + 'a ndarray" where
  "getitem a i =
     (case shape a of
        [] \<Rightarrow> Inl (Lib IndexError)
      | n # s \<Rightarrow>
          if i < n then Inr \<lparr>dtype = dtype a, shape = s, data = row_data a i\<rparr>
          else Inl (Lib IndexError))"

text \<open>\<^verbatim>\<open>numpy.expand_dims(a, 0)\<close>.\<close>

definition expand_dims :: "'a ndarray \<Rightarrow> 'a ndarray" where
  "expand_dims a = \<lparr>dtype = dtype a, shape = 1 # shape a, data = data a\<rparr>"

text \<open>\<^verbatim>\<open>a[[i]]\<close>: indexing with a one-element list keeps the leading dimension.\<close>

definition getitem_list :: "'a ndarray \<Rightarrow> nat \<Rightarrow> exn + 'a ndarray" where
  "getitem_list a i =
     (case shape a of
        [] \<Rightarrow> Inl (Lib IndexError)
      | n # s \<Rightarrow>
          if i < n then Inr \<lparr>dtype = dtype a, shape = 1 # s, data = row_data a i\<rparr>
          else Inl (Lib IndexError))"

text \<open>
  \<^verbatim>\<open>iter(a)\<close>, the rows in order; iterating over a 0-dimensional array raises
  TypeError.
\<close>

definition iter_rows :: "'a ndarray \<Rightarrow> exn + 'a ndarray list" where
  "iter_rows a =
     (case shape a of
        [] \<Rightarrow> Inl (Lib TypeError)
      | n # s \<Rightarrow> Inr (map (\<lambda>i. \<lparr>dtype = dtype a, shape = s, data = row_data a i\<rparr>) [0..<n]))"

text \<open>
  \<^verbatim>\<open>numpy.concatenate(arrs, axis=0)\<close>. It raises ValueError for an empty list, for a
  0-dimensional array, and for arrays whose shapes differ after the first dimension.
  The element type of the result is numpy's promotion of the element types, the
  parameter \<open>result_type\<close>.
\<close>

definition concatenate :: "(dtype list \<Rightarrow> dtype) \<Rightarrow> 'a ndarray list \<Rightarrow> exn + 'a ndarray" where
  "concatenate result_type arrs =
     (case arrs of
        [] \<Rightarrow> Inl (Lib ValueError)
      | a # _ \<Rightarrow>
          if list_ex (\<lambda>b. shape b = []) arrs then Inl (Lib ValueError)
          else if list_ex (\<lambda>b. tl (shape b) \<noteq> tl (shape a)) arrs then Inl (Lib ValueError)
          else Inr \<lparr>dtype = result_type (map dtype arrs),
                    shape = sum_list (map (\<lambda>b. hd (shape b)) arrs) # tl (shape a),
                    data = concat (map data arrs)\<rparr>)"

section \<open>The collaborators of the module\<close>

text \<open>
  Modelled from the spec: \<^verbatim>\<open>QuantizedArray\<close> and \<^verbatim>\<open>UniformQuantizer\<close> are
  imported from \<^verbatim>\<open>.quantizers\<close>, which is not part of the sources. A quantized tensor
  is an integer array plus the bit-width, options, calibration statistics and parameters of
  the quantizer that produced it; the three kinds of quantizer metadata are opaque values
  of type \<open>'m\<close>. A quantizer maps a float array to an array of integer codes with
  \<^verbatim>\<open>quant\<close>, which may raise. Array elements, floats and integer codes alike, are
  opaque values of type \<open>'a\<close>; what kind of number an array holds is its \<open>dtype\<close>.
\<close>

record ('a, 'm) quantized_array =
  qa_n_bits :: nat
  qa_qvalues :: "'a ndarray"
  qa_options :: 'm
  qa_stats :: 'm
  qa_params :: 'm

record ('a, 'm) uniform_quantizer =
  n_bits :: nat
  quant_options :: 'm
  quant_stats :: 'm
  quant_params :: 'm
  quant :: "'a ndarray \<Rightarrow> exn + 'a ndarray"

text \<open>
  \<^verbatim>\<open>QuantizedArray(q.n_bits, qvalues, value_is_float=False, options=q.quant_options,
  stats=q.quant_stats, params=q.quant_params)\<close>.
\<close>

definition make_quantized_array :: "('a, 'm) uniform_quantizer \<Rightarrow> 'a ndarray \<Rightarrow> ('a, 'm) quantized_array" where
  "make_quantized_array q qv =
     \<lparr>qa_n_bits = n_bits q, qa_qvalues = qv, qa_options = quant_options q,
      qa_stats = quant_stats q, qa_params = quant_params q\<rparr>"

text \<open>
  \<^verbatim>\<open>ONNXOpInputOutputType\<close>: what an operation consumes and produces, a quantized
  array, a plain array, or \<^verbatim>\<open>None\<close>.
\<close>

datatype ('a, 'm) onnx_value = QArray "('a, 'm) quantized_array" | NDArray "'a ndarray" | NoneValue

text \<open>
  The debug trace, \<^verbatim>\<open>Dict[str, Dict[Union[int, str], Optional[ONNXOpInputOutputType]]]\<close>,
  as association lists. The trace dictionaries live in a store (a list, addressed by
  position), since one dictionary is shared by \<^verbatim>\<open>forward\<close> and by every operation
  it is installed on.
\<close>

type_synonym ('a, 'm) tracker = "(string \<times> ((int + string) \<times> ('a, 'm) onnx_value) list) list"

type_synonym ('a, 'm) store = "('a, 'm) tracker list"

text \<open>
  Modelled from the spec: \<^verbatim>\<open>QuantizedOp\<close> is imported from
  \<^verbatim>\<open>.base_quantized_op\<close>, which is not part of the sources. An operation is callable
  with its resolved inputs and returns one output or raises; it has a fault-collection slot
  \<^verbatim>\<open>error_tracker\<close> and a debug-capture slot \<^verbatim>\<open>debug_value_tracker\<close>, an operation
  type and an instance name. Its behaviour is the field \<open>run\<close>: from the inputs and the
  contents of the installed debug trace (if one is installed) to the result, the input
  positions it appends to the installed error tracker, and the new contents of the trace.
\<close>

record ('a, 'm) quantized_op =
  op_type :: string
  op_instance_name :: string
  run :: "('a, 'm) onnx_value list \<Rightarrow> ('a, 'm) tracker option
            \<Rightarrow> (exn + ('a, 'm) onnx_value) \<times> int list \<times> ('a, 'm) tracker option"
  error_tracker :: "int list option"
  debug_value_tracker :: "nat option"

text \<open>
  The compiled circuit of the backend (concrete-numpy's \<^verbatim>\<open>Circuit\<close>, not part of this
  repository): its two ways of running one sample, and its graph's two queries by tag
  pattern. A pattern is \<^verbatim>\<open>re.compile(source)\<close>.
\<close>

datatype pattern = Pattern string

record 'a circuit =
  simulate :: "'a ndarray list \<Rightarrow> exn + 'a ndarray"
  encrypt_run_decrypt :: "'a ndarray list \<Rightarrow> exn + 'a ndarray"
  integer_range :: "pattern \<Rightarrow> int list option"
  maximum_integer_bit_width :: "pattern \<Rightarrow> int"

section \<open>The quantized module\<close>

text \<open>
  The attributes of \<^verbatim>\<open>QuantizedModule\<close> that the functions below read and write.
  \<^verbatim>\<open>quant_layers_dict\<close> keeps its insertion order: it is the list of its items,
  output name, input names and operation.
\<close>

record ('a, 'm) quantized_module =
  ordered_module_input_names :: "string list"
  ordered_module_output_names :: "string list"
  quant_layers_dict :: "(string \<times> string list \<times> ('a, 'm) quantized_op) list"
  input_quantizers :: "('a, 'm) uniform_quantizer list"
  fhe_circuit :: "'a circuit option"

subsection \<open>\<^verbatim>\<open>_raise_qat_import_error\<close>\<close>

definition qat_line :: "string \<times> string \<Rightarrow> string" where
  "qat_line info = ''* Tensor '' @ fst info @ '', input of an '' @ snd info @ '' operation''"

definition raise_qat_import_error :: "(string \<times> string) list \<Rightarrow> exn" where
  "raise_qat_import_error bad_qat_ops =
     Exn ValueError
       (''Error occurred during quantization aware training (QAT) import: ''
        @ ''The following tensors were expected to be quantized, but the values ''
        @ ''found during calibration do not appear to be quantized. '' @ [CHR 0x0A, CHR 0x0A]
        @ join [CHR 0x0A] (map qat_line bad_qat_ops)
        @ [CHR 0x0A, CHR 0x0A] @ ''Could not determine a unique scale for the quantization! ''
        @ ''Please check the ONNX graph of this model.'')"

subsection \<open>\<^verbatim>\<open>_get_inputset_generator\<close>\<close>

text \<open>
  The argument is one array or a tuple of arrays. Modelled from the spec:
  \<^verbatim>\<open>to_tuple\<close> is imported from \<^verbatim>\<open>..common.utils\<close>, which is not part of the
  sources; it leaves a tuple as it is and wraps anything else into a one-element tuple
  (the source's comment: "there's only a single input (q_inputs, )").
\<close>

datatype 'a arrays = Single "'a ndarray" | Tuple "'a ndarray list"

definition to_tuple :: "'a arrays \<Rightarrow> 'a ndarray list" where
  "to_tuple x = (case x of Single a \<Rightarrow> [a] | Tuple arrs \<Rightarrow> arrs)"

text \<open>
  An element of the input set: one array (single input) or a tuple of arrays. The
  generator is lazy: it is the list of its elements' computations, each of which yields
  its element or raises when the consumer reaches it. What the generator expression
  evaluates at once (its outermost iterable) can fail the call itself.
\<close>

datatype 'a inputset_item = One "'a ndarray" | Many "'a ndarray list"

text \<open>\<^verbatim>\<open>tuple(numpy.expand_dims(q_input[idx], 0) for q_input in q_inputs)\<close>.\<close>

fun sample_tuple :: "'a ndarray list \<Rightarrow> nat \<Rightarrow> exn + 'a ndarray list" where
  "sample_tuple [] idx = Inr []"
| "sample_tuple (q_input # rest) idx =
     (case getitem q_input idx of
        Inl e \<Rightarrow> Inl e
      | Inr row \<Rightarrow>
          (case sample_tuple rest idx of
             Inl e \<Rightarrow> Inl e
           | Inr rows \<Rightarrow> Inr (expand_dims row # rows)))"

definition get_inputset_generator :: "'a arrays \<Rightarrow> exn + (exn + 'a inputset_item) list" where
  "get_inputset_generator q_inputs0 =
     (let q_inputs = to_tuple q_inputs0 in
      if \<not> length q_inputs > 0 then Inl (Exn AssertionError ''Inputset cannot be empty'')
      else if length q_inputs > 1 then
        (case shape0 (q_inputs ! 0) of
           Inl e \<Rightarrow> Inl e
         | Inr n \<Rightarrow>
             Inr (map (\<lambda>idx. case sample_tuple q_inputs idx of
                                Inl e \<Rightarrow> Inl e
                              | Inr t \<Rightarrow> Inr (Many t)) [0..<n]))
      else
        (case iter_rows (q_inputs ! 0) of
           Inl e \<Rightarrow> Inl e
         | Inr rows \<Rightarrow> Inr (map (\<lambda>q_input. Inr (One (expand_dims q_input))) rows)))"

subsection \<open>\<^verbatim>\<open>check_model_is_compiled\<close>\<close>

definition not_compiled_msg :: string where
  "not_compiled_msg =
     ''The quantized module is not compiled. Please run compile(...) first before ''
     @ ''executing it in FHE.''"


subsection \<open>\<^verbatim>\<open>forward\<close> and \<^verbatim>\<open>_forward\<close>\<close>

text \<open>The check at the head of \<^verbatim>\<open>forward\<close>: the inputs that are not of an integer type.\<close>

definition invalid_inputs :: "'a ndarray list \<Rightarrow> (nat \<times> 'a ndarray) list" where
  "invalid_inputs qvalues =
     filter (\<lambda>val. \<not> is_integer (dtype (snd val))) (List.enumerate 0 qvalues)"

definition invalid_item :: "nat \<times> 'a ndarray \<Rightarrow> string" where
  "invalid_item val = ''#'' @ str_nat (fst val) @ '' ('' @ dtype_name (dtype (snd val)) @ '')''"

definition not_integer_msg :: "(nat \<times> 'a ndarray) list \<Rightarrow> string" where
  "not_integer_msg invalid =
     ''Inputs: '' @ join '', '' (map invalid_item invalid) @ '' are not ''
     @ ''integer types. Make sure you quantize your input before calling forward.''"

definition check_inputs :: "'a ndarray list \<Rightarrow> exn + unit" where
  "check_inputs qvalues =
     assert_true (length (invalid_inputs qvalues) = 0)
       (not_integer_msg (invalid_inputs qvalues)) ValueError"

text \<open>\<^verbatim>\<open>layer_results.get(input_name, None)\<close>.\<close>

definition get_or_none :: "(string \<rightharpoonup> ('a, 'm) onnx_value) \<Rightarrow> string \<Rightarrow> ('a, 'm) onnx_value" where
  "get_or_none layer_results input_name =
     (case layer_results input_name of None \<Rightarrow> NoneValue | Some v \<Rightarrow> v)"

text \<open>\<^verbatim>\<open>dict(zip(names, values))\<close>: a later pair of a repeated name wins.\<close>

definition dict_of :: "(string \<times> 'v) list \<Rightarrow> (string \<rightharpoonup> 'v)" where
  "dict_of kvs = fold (\<lambda>kv d. d(fst kv \<mapsto> snd kv)) kvs Map.empty"

text \<open>
  \<^verbatim>\<open>layer(*inputs)\<close>: the operation runs on its inputs and on the trace its
  debug slot refers to, and writes the trace back to the store.
\<close>

definition call_layer ::
  "('a, 'm) store \<Rightarrow> ('a, 'm) quantized_op \<Rightarrow> ('a, 'm) onnx_value list
     \<Rightarrow> ((exn + ('a, 'm) onnx_value) \<times> int list) \<times> ('a, 'm) store" where
  "call_layer h layer inputs =
     (let installed =
            (case debug_value_tracker layer of
               None \<Rightarrow> None
             | Some r \<Rightarrow> if r < length h then Some (h ! r) else None);
          out = run layer inputs installed
      in ((fst out, fst (snd out)),
          (case (debug_value_tracker layer, snd (snd out)) of
             (Some r, Some t) \<Rightarrow> h[r := t]
           | _ \<Rightarrow> h)))"

text \<open>
  \<^verbatim>\<open>for input_idx in error_tracker: bad_qat_ops.append((input_names[input_idx],
  layer.__class__.op_type()))\<close>: the pairs one operation adds.
\<close>

fun fault_pairs :: "string list \<Rightarrow> string \<Rightarrow> int list \<Rightarrow> exn + (string \<times> string) list" where
  "fault_pairs input_names ty [] = Inr []"
| "fault_pairs input_names ty (input_idx # rest) =
     (case py_index input_names input_idx of
        Inl e \<Rightarrow> Inl e
      | Inr name \<Rightarrow>
          (case fault_pairs input_names ty rest of
             Inl e \<Rightarrow> Inl e
           | Inr pairs \<Rightarrow> Inr ((name, ty) # pairs)))"

text \<open>
  One round of the loop of \<^verbatim>\<open>_forward\<close>: resolve the inputs, install a fresh error
  tracker, call the operation, clear the tracker, and turn what the operation reported
  into pairs. When the operation raises, the tracker stays installed.
\<close>

definition run_layer ::
  "('a, 'm) store \<Rightarrow> (string \<rightharpoonup> ('a, 'm) onnx_value) \<Rightarrow> string list \<Rightarrow> ('a, 'm) quantized_op
     \<Rightarrow> (exn + ('a, 'm) onnx_value \<times> (string \<times> string) list) \<times> ('a, 'm) quantized_op \<times> ('a, 'm) store" where
  "run_layer h layer_results input_names layer =
     (let inputs = map (get_or_none layer_results) input_names;
          layer1 = layer\<lparr>error_tracker := Some []\<rparr>;
          called = call_layer h layer1 inputs
      in case fst (fst called) of
           Inl e \<Rightarrow> (Inl e, layer1\<lparr>error_tracker := Some (snd (fst called))\<rparr>, snd called)
         | Inr output \<Rightarrow>
             (case fault_pairs input_names (op_type layer) (snd (fst called)) of
                Inl e \<Rightarrow> (Inl e, layer1\<lparr>error_tracker := None\<rparr>, snd called)
              | Inr pairs \<Rightarrow> (Inr (output, pairs), layer1\<lparr>error_tracker := None\<rparr>, snd called)))"

text \<open>
  The loop over \<^verbatim>\<open>self.quant_layers_dict.items()\<close>. \<open>finished\<close> are the items already
  run (with their operations as the loop left them), and \<open>bad_qat_ops\<close> the pairs so far.
\<close>

fun run_layers ::
  "('a, 'm) store \<Rightarrow> (string \<rightharpoonup> ('a, 'm) onnx_value) \<Rightarrow> (string \<times> string) list
     \<Rightarrow> (string \<times> string list \<times> ('a, 'm) quantized_op) list
     \<Rightarrow> (string \<times> string list \<times> ('a, 'm) quantized_op) list
     \<Rightarrow> (exn + (string \<rightharpoonup> ('a, 'm) onnx_value) \<times> (string \<times> string) list)
         \<times> (string \<times> string list \<times> ('a, 'm) quantized_op) list \<times> ('a, 'm) store" where
  "run_layers h layer_results bad_qat_ops finished [] = (Inr (layer_results, bad_qat_ops), finished, h)"
| "run_layers h layer_results bad_qat_ops finished ((output_name, input_names, layer) # rest) =
     (case run_layer h layer_results input_names layer of
        (Inl e, layer', h') \<Rightarrow> (Inl e, finished @ (output_name, input_names, layer') # rest, h')
      | (Inr (output, pairs), layer', h') \<Rightarrow>
          run_layers h' (layer_results(output_name \<mapsto> output)) (bad_qat_ops @ pairs)
            (finished @ [(output_name, input_names, layer')]) rest)"

text \<open>
  What the loop collects, operation by operation: the list, in the order of the graph, of
  the pairs each operation added to \<^verbatim>\<open>bad_qat_ops\<close>, up to the first operation
  that raises (or reports a position that is not one of its inputs). It follows the loop
  above round by round and keeps only the pairs.
\<close>

fun node_faults ::
  "('a, 'm) store \<Rightarrow> (string \<rightharpoonup> ('a, 'm) onnx_value)
     \<Rightarrow> (string \<times> string list \<times> ('a, 'm) quantized_op) list \<Rightarrow> (string \<times> string) list list" where
  "node_faults h layer_results [] = []"
| "node_faults h layer_results ((output_name, input_names, layer) # rest) =
     (case run_layer h layer_results input_names layer of
        (Inl e, layer', h') \<Rightarrow> []
      | (Inr (output, pairs), layer', h') \<Rightarrow>
          pairs # node_faults h' (layer_results(output_name \<mapsto> output)) rest)"


text \<open>
  The end of \<^verbatim>\<open>_forward\<close>: the outputs by name (a missing name is a KeyError), exactly
  one of them, a quantized array, whose integer codes are returned.
\<close>

fun lookup_outputs :: "(string \<rightharpoonup> 'v) \<Rightarrow> string list \<Rightarrow> exn + 'v list" where
  "lookup_outputs layer_results [] = Inr []"
| "lookup_outputs layer_results (output_name # rest) =
     (case layer_results output_name of
        None \<Rightarrow> Inl (Lib KeyError)
      | Some v \<Rightarrow>
          (case lookup_outputs layer_results rest of
             Inl e \<Rightarrow> Inl e
           | Inr vs \<Rightarrow> Inr (v # vs)))"

definition graph_output ::
  "exn_class \<Rightarrow> (string \<rightharpoonup> ('a, 'm) onnx_value) \<Rightarrow> string list \<Rightarrow> exn + 'a ndarray" where
  "graph_output dflt layer_results output_names =
     (case lookup_outputs layer_results output_names of
        Inl e \<Rightarrow> Inl e
      | Inr outputs \<Rightarrow>
          (case assert_true (length outputs = 1) [] dflt of
             Inl e \<Rightarrow> Inl e
           | Inr _ \<Rightarrow>
               (case outputs ! 0 of
                  QArray qa \<Rightarrow> Inr (qa_qvalues qa)
                | _ \<Rightarrow> Inl (Exn AssertionError []))))"

definition arity_msg :: "nat \<Rightarrow> nat \<Rightarrow> string" where
  "arity_msg n_values n_expected =
     ''Got '' @ str_nat n_values @ '' inputs, expected '' @ str_nat n_expected"

text \<open>
  The start of \<^verbatim>\<open>_forward\<close> after its arity check: each input wrapped into a
  quantized array with its quantizer's parameters (the indices are in range of both lists,
  whose lengths the check has found equal), under the declared input names.
\<close>

definition input_results ::
  "('a, 'm) quantized_module \<Rightarrow> 'a ndarray list \<Rightarrow> (string \<rightharpoonup> ('a, 'm) onnx_value)" where
  "input_results m qvalues =
     (let q_inputs =
            map (\<lambda>idx. make_quantized_array (input_quantizers m ! idx) (qvalues ! idx))
              [0..<length (input_quantizers m)]
      in dict_of (zip (ordered_module_input_names m) (map QArray q_inputs)))"

text \<open>
  \<^verbatim>\<open>_forward\<close>. It returns its result or exception together with the module and the
  store as the call leaves them.
\<close>

definition underscore_forward ::
  "exn_class \<Rightarrow> ('a, 'm) quantized_module \<Rightarrow> 'a ndarray list \<Rightarrow> ('a, 'm) store
     \<Rightarrow> (exn + 'a ndarray) \<times> ('a, 'm) quantized_module \<times> ('a, 'm) store" where
  "underscore_forward dflt m qvalues h =
     (let n_qinputs = length (input_quantizers m);
          n_qvalues = length qvalues
      in case assert_true (n_qvalues = n_qinputs) (arity_msg n_qvalues n_qinputs) TypeError of
           Inl e \<Rightarrow> (Inl e, m, h)
         | Inr _ \<Rightarrow>
             (let layer_results = input_results m qvalues
              in case run_layers h layer_results [] [] (quant_layers_dict m) of
                   (Inl e, items, h') \<Rightarrow> (Inl e, m\<lparr>quant_layers_dict := items\<rparr>, h')
                 | (Inr (layer_results', bad_qat_ops), items, h') \<Rightarrow>
                     (if length bad_qat_ops > 0
                      then (Inl (raise_qat_import_error bad_qat_ops), m\<lparr>quant_layers_dict := items\<rparr>, h')
                      else (graph_output dflt layer_results' (ordered_module_output_names m),
                            m\<lparr>quant_layers_dict := items\<rparr>, h'))))"

text \<open>
  \<^verbatim>\<open>layer.debug_value_tracker = v\<close> for every operation of the graph.
\<close>

definition set_debug_value_tracker ::
  "nat option \<Rightarrow> ('a, 'm) quantized_module \<Rightarrow> ('a, 'm) quantized_module" where
  "set_debug_value_tracker v m =
     m\<lparr>quant_layers_dict :=
         map (\<lambda>item. (fst item, fst (snd item), (snd (snd item))\<lparr>debug_value_tracker := v\<rparr>))
           (quant_layers_dict m)\<rparr>"

text \<open>The debug-capture slots of the operations of the graph, in the order of the graph.\<close>

definition debug_slots :: "('a, 'm) quantized_module \<Rightarrow> nat option list" where
  "debug_slots m = map (\<lambda>item. debug_value_tracker (snd (snd item))) (quant_layers_dict m)"

text \<open>
  \<^verbatim>\<open>forward\<close>. With \<^verbatim>\<open>debug\<close> it returns the result and the trace dictionary (its
  address in the store), otherwise the result alone. The new dictionary \<^verbatim>\<open>{}\<close> is
  allocated at the end of the store.
\<close>

datatype 'a forward_result = Plain "'a ndarray" | WithTrace "'a ndarray" nat

definition forward ::
  "exn_class \<Rightarrow> ('a, 'm) quantized_module \<Rightarrow> 'a ndarray list \<Rightarrow> bool \<Rightarrow> ('a, 'm) store
     \<Rightarrow> (exn + 'a forward_result) \<times> ('a, 'm) quantized_module \<times> ('a, 'm) store" where
  "forward dflt m qvalues debug h =
     (case check_inputs qvalues of
        Inl e \<Rightarrow> (Inl e, m, h)
      | Inr _ \<Rightarrow>
          if debug then
            (let r = length h;
                 m1 = set_debug_value_tracker (Some r) m
             in case underscore_forward dflt m1 qvalues (h @ [[]]) of
                  (Inl e, m2, h2) \<Rightarrow> (Inl e, m2, h2)
                | (Inr result, m2, h2) \<Rightarrow>
                    (Inr (WithTrace result r), set_debug_value_tracker None m2, h2))
          else
            (case underscore_forward dflt m qvalues h of
               (Inl e, m2, h2) \<Rightarrow> (Inl e, m2, h2)
             | (Inr result, m2, h2) \<Rightarrow> (Inr (Plain result), m2, h2)))"

subsection \<open>\<^verbatim>\<open>forward_in_fhe\<close>\<close>

text \<open>\<^verbatim>\<open>tuple(qvalues[input][[i]] for input in range(len(qvalues)))\<close>.\<close>

fun sample_slices :: "'a ndarray list \<Rightarrow> nat \<Rightarrow> exn + 'a ndarray list" where
  "sample_slices [] i = Inr []"
| "sample_slices (qvalue # rest) i =
     (case getitem_list qvalue i of
        Inl e \<Rightarrow> Inl e
      | Inr s \<Rightarrow>
          (case sample_slices rest i of
             Inl e \<Rightarrow> Inl e
           | Inr ss \<Rightarrow> Inr (s # ss)))"

text \<open>The backend call the flag routes to.\<close>

definition backend_call :: "'a circuit \<Rightarrow> bool \<Rightarrow> 'a ndarray list \<Rightarrow> exn + 'a ndarray" where
  "backend_call c simulate_mode q_value =
     (if simulate_mode then simulate c q_value else encrypt_run_decrypt c q_value)"

text \<open>The loop over the samples; \<open>results_cnp_circuit_list\<close> are the results so far.\<close>

fun fhe_loop ::
  "'a circuit \<Rightarrow> bool \<Rightarrow> 'a ndarray list \<Rightarrow> nat list \<Rightarrow> 'a ndarray list \<Rightarrow> exn + 'a ndarray list" where
  "fhe_loop c simulate_mode qvalues [] results_cnp_circuit_list = Inr results_cnp_circuit_list"
| "fhe_loop c simulate_mode qvalues (i # rest) results_cnp_circuit_list =
     (case sample_slices qvalues i of
        Inl e \<Rightarrow> Inl e
      | Inr q_value \<Rightarrow>
          (case backend_call c simulate_mode q_value of
             Inl e \<Rightarrow> Inl e
           | Inr q_result \<Rightarrow>
               fhe_loop c simulate_mode qvalues rest (results_cnp_circuit_list @ [q_result])))"

text \<open>
  \<^verbatim>\<open>forward_in_fhe\<close>. The first check is \<^verbatim>\<open>assert_true\<close> without an error class.
  \<^verbatim>\<open>qvalues[0]\<close> of no inputs at all is an IndexError. The module is only read.
\<close>

definition forward_in_fhe ::
  "exn_class \<Rightarrow> (dtype list \<Rightarrow> dtype) \<Rightarrow> ('a, 'm) quantized_module \<Rightarrow> 'a ndarray list \<Rightarrow> bool
     \<Rightarrow> exn + 'a ndarray" where
  "forward_in_fhe dflt result_type m qvalues simulate_mode =
     (case assert_true (fhe_circuit m \<noteq> None) not_compiled_msg dflt of
        Inl e \<Rightarrow> Inl e
      | Inr _ \<Rightarrow>
          (case fhe_circuit m of
             None \<Rightarrow> Inl (Exn AssertionError [])
           | Some c \<Rightarrow>
               (case qvalues of
                  [] \<Rightarrow> Inl (Lib IndexError)
                | first # _ \<Rightarrow>
                    (case shape0 first of
                       Inl e \<Rightarrow> Inl e
                     | Inr n \<Rightarrow>
                         (case fhe_loop c simulate_mode qvalues [0..<n] [] of
                            Inl e \<Rightarrow> Inl e
                          | Inr results \<Rightarrow> concatenate result_type results)))))"

subsection \<open>\<^verbatim>\<open>quantize_input\<close> and \<^verbatim>\<open>set_inputs_quantization_parameters\<close>\<close>

text \<open>
  \<^verbatim>\<open>tuple(self.input_quantizers[idx].quant(values[idx]) for idx in range(len(values)))\<close>;
  the indices are in range of both lists, whose lengths the check before has found equal.
\<close>

fun quant_values ::
  "('a, 'm) uniform_quantizer list \<Rightarrow> 'a ndarray list \<Rightarrow> nat list \<Rightarrow> exn + 'a ndarray list" where
  "quant_values quantizers values [] = Inr []"
| "quant_values quantizers values (idx # rest) =
     (case quant (quantizers ! idx) (values ! idx) of
        Inl e \<Rightarrow> Inl e
      | Inr q \<Rightarrow>
          (case quant_values quantizers values rest of
             Inl e \<Rightarrow> Inl e
           | Inr qs \<Rightarrow> Inr (q # qs)))"

text \<open>
  \<^verbatim>\<open>quantize_input\<close>. \<open>array_dtype\<close> is \<^verbatim>\<open>numpy.array(q_values).dtype\<close>, numpy's
  element type for the stacked tuple (or the error numpy raises for it). The module is
  only read.
\<close>

definition quantize_input ::
  "('a ndarray list \<Rightarrow> exn + dtype) \<Rightarrow> ('a, 'm) quantized_module \<Rightarrow> 'a ndarray list \<Rightarrow> exn + 'a arrays" where
  "quantize_input array_dtype m values =
     (let n_q_inputs = length (input_quantizers m);
          n_values = length values
      in case assert_true (n_values = n_q_inputs) (arity_msg n_values n_q_inputs) TypeError of
           Inl e \<Rightarrow> Inl e
         | Inr _ \<Rightarrow>
             (case quant_values (input_quantizers m) values [0..<length values] of
                Inl e \<Rightarrow> Inl e
              | Inr q_values \<Rightarrow>
                  (case array_dtype q_values of
                     Inl e \<Rightarrow> Inl e
                   | Inr d \<Rightarrow>
                       if d \<noteq> Int64
                       then Inl (Exn AssertionError ''Inputs were not quantized to int64 values'')
                       else Inr (if length q_values = 1 then Single (q_values ! 0)
                                 else Tuple q_values))))"

text \<open>
  \<^verbatim>\<open>set_inputs_quantization_parameters\<close>: the quantizer list is cleared and filled
  with deep copies of the arguments (a copy of a value is the value).
\<close>

definition set_inputs_quantization_parameters ::
  "('a, 'm) quantized_module \<Rightarrow> ('a, 'm) uniform_quantizer list
     \<Rightarrow> (exn + unit) \<times> ('a, 'm) quantized_module" where
  "set_inputs_quantization_parameters m input_q_params =
     (let n_inputs = length (ordered_module_input_names m);
          n_values = length input_q_params
      in case assert_true (n_values = n_inputs) (arity_msg n_values n_inputs) TypeError of
           Inl e \<Rightarrow> (Inl e, m)
         | Inr _ \<Rightarrow> (Inr (), m\<lparr>input_quantizers := [] @ input_q_params\<rparr>))"

subsection \<open>\<^verbatim>\<open>compile\<close>\<close>

text \<open>
  \<^verbatim>\<open>all(input.shape[0] == ref_len for input in inputs)\<close>, which stops at the first
  input of another length.
\<close>

fun all_same_length :: "nat \<Rightarrow> 'a ndarray list \<Rightarrow> exn + bool" where
  "all_same_length ref_len [] = Inr True"
| "all_same_length ref_len (input # rest) =
     (case shape0 input of
        Inl e \<Rightarrow> Inl e
      | Inr n \<Rightarrow> if n = ref_len then all_same_length ref_len rest else Inr False)"

definition already_quantized_msg :: string where
  "already_quantized_msg =
     ''Inputs used for compiling a QuantizedModule should only be floating points and not''
     @ ''already-quantized values.''"

text \<open>
  The two checks at the head of \<^verbatim>\<open>compile\<close>, on the tuple of inputs:
  \<^verbatim>\<open>inputs[0].shape[0]\<close>, the lengths (an \<^verbatim>\<open>assert_true\<close> without an error
  class), and the \<^verbatim>\<open>assert\<close> that no input is of an integer type.
\<close>

definition compile_checks :: "exn_class \<Rightarrow> 'a ndarray list \<Rightarrow> exn + unit" where
  "compile_checks dflt inputs =
     (case inputs of
        [] \<Rightarrow> Inl (Lib IndexError)
      | first # _ \<Rightarrow>
          (case shape0 first of
             Inl e \<Rightarrow> Inl e
           | Inr ref_len \<Rightarrow>
               (case all_same_length ref_len inputs of
                  Inl e \<Rightarrow> Inl e
                | Inr same \<Rightarrow>
                    (case assert_true same ''Mismatched dataset lengths'' dflt of
                       Inl e \<Rightarrow> Inl e
                     | Inr _ \<Rightarrow>
                         if list_ex (\<lambda>input. is_integer (dtype input)) inputs
                         then Inl (Exn AssertionError already_quantized_msg)
                         else Inr ()))))"

text \<open>
  The options of \<^verbatim>\<open>compile\<close>, and what it calls outside this file: building the
  compiler around the proxy of \<^verbatim>\<open>_forward\<close> (\<^verbatim>\<open>generate_proxy_function\<close> and
  \<^verbatim>\<open>Compiler(...)\<close>), the two helpers for the error probabilities, and the external
  compiler itself, which consumes the input set. Each may raise.
\<close>

record ('cfg, 'art, 'p) compile_options =
  configuration :: "'cfg option"
  artifacts :: "'art option"
  show_mlir :: bool
  use_virtual_lib :: bool
  p_error :: "'p option"
  global_p_error :: "'p option"
  verbose :: bool

record ('a, 'm, 'k, 'cfg, 'art, 'p) compile_env =
  make_compiler :: "('a, 'm) quantized_module \<Rightarrow> exn + 'k"
  check_there_is_no_p_error_options_in_configuration :: "'cfg option \<Rightarrow> exn + unit"
  manage_parameters_for_pbs_errors :: "'p option \<Rightarrow> 'p option \<Rightarrow> exn + 'p option \<times> 'p option"
  compiler_compile ::
    "'k \<Rightarrow> (exn + 'a inputset_item) list \<Rightarrow> ('cfg, 'art, 'p) compile_options \<Rightarrow> exn + 'a circuit"

text \<open>What follows the two checks, up to the call of the external compiler.\<close>

definition compile_steps ::
  "('a ndarray list \<Rightarrow> exn + dtype) \<Rightarrow> ('a, 'm, 'k, 'cfg, 'art, 'p) compile_env
     \<Rightarrow> ('a, 'm) quantized_module \<Rightarrow> 'a ndarray list \<Rightarrow> ('cfg, 'art, 'p) compile_options
     \<Rightarrow> exn + 'a circuit" where
  "compile_steps array_dtype env m inputs opts =
     (case make_compiler env m of
        Inl e \<Rightarrow> Inl e
      | Inr compiler \<Rightarrow>
     (case quantize_input array_dtype m inputs of
        Inl e \<Rightarrow> Inl e
      | Inr q_inputs \<Rightarrow>
     (case get_inputset_generator q_inputs of
        Inl e \<Rightarrow> Inl e
      | Inr inputset \<Rightarrow>
     (case check_there_is_no_p_error_options_in_configuration env (configuration opts) of
        Inl e \<Rightarrow> Inl e
      | Inr _ \<Rightarrow>
     (case manage_parameters_for_pbs_errors env (p_error opts) (global_p_error opts) of
        Inl e \<Rightarrow> Inl e
      | Inr pp \<Rightarrow>
          compiler_compile env compiler inputset
            (opts\<lparr>p_error := fst pp, global_p_error := snd pp\<rparr>))))))"

text \<open>
  \<^verbatim>\<open>compile\<close>: the checks, the steps, and the circuit stored in the module when the
  external compiler returned one.
\<close>

definition compile ::
  "exn_class \<Rightarrow> ('a ndarray list \<Rightarrow> exn + dtype) \<Rightarrow> ('a, 'm, 'k, 'cfg, 'art, 'p) compile_env
     \<Rightarrow> ('a, 'm) quantized_module \<Rightarrow> 'a arrays \<Rightarrow> ('cfg, 'art, 'p) compile_options
     \<Rightarrow> (exn + 'a circuit) \<times> ('a, 'm) quantized_module" where
  "compile dflt array_dtype env m inputs0 opts =
     (let inputs = to_tuple inputs0
      in case compile_checks dflt inputs of
           Inl e \<Rightarrow> (Inl e, m)
         | Inr _ \<Rightarrow>
             (case compile_steps array_dtype env m inputs opts of
                Inl e \<Rightarrow> (Inl e, m)
              | Inr c \<Rightarrow> (Inr c, m\<lparr>fhe_circuit := Some c\<rparr>)))"

subsection \<open>\<^verbatim>\<open>bitwidth_and_range_report\<close>\<close>

text \<open>
  \<^verbatim>\<open>re.escape\<close> (Python 3.7 and later): a backslash before each of the characters
  \<^verbatim>\<open>()[]{}?*+-|^$\.&~#\<close>, the space, and tab, newline, carriage return, vertical tab and
  form feed. The pattern of an operation is its escaped instance name followed by the
  source text \<^verbatim>\<open>(\..*)?\<close>.
\<close>

definition re_special_chars :: string where
  "re_special_chars =
     ''()[]{}?*+-|^$'' @ [CHR 0x5C] @ ''.&~# '' @ [CHR 0x09, CHR 0x0A, CHR 0x0D, CHR 0x0B, CHR 0x0C]"

definition re_escape :: "string \<Rightarrow> string" where
  "re_escape s = concat (map (\<lambda>c. if c \<in> set re_special_chars then [CHR 0x5C, c] else [c]) s)"

definition tag_pattern :: "string \<Rightarrow> pattern" where
  "tag_pattern name = Pattern (re_escape name @ ''('' @ [CHR 0x5C] @ ''..*)?'')"

text \<open>
  What such a pattern matches. The graph of the circuit selects the nodes whose tag the
  pattern matches in full (\<^verbatim>\<open>pattern.fullmatch(tag)\<close>). The patterns built here use
  a small part of Python's syntax of regular expressions: a character escaped by a
  backslash and an ordinary character stand for themselves, \<^verbatim>\<open>.\<close> for any character
  but the newline, \<^verbatim>\<open>(...)\<close> groups, and \<^verbatim>\<open>*\<close> and \<^verbatim>\<open>?\<close> repeat the
  item before them or make it optional. \<open>re_parse\<close> reads a source text of that part
  (and gives \<open>None\<close> for any other); \<open>lang\<close> is the set of texts an expression
  matches in full.
\<close>

datatype rx = Eps | Chr char | AnyChar | Cat rx rx | Opt rx | Star rx

definition seq_of :: "rx list \<Rightarrow> rx" where
  "seq_of rs = foldr Cat rs Eps"

fun re_parse :: "string \<Rightarrow> rx list \<Rightarrow> rx list list \<Rightarrow> rx option" where
  "re_parse [] cur stack = (if stack = [] then Some (seq_of (rev cur)) else None)"
| "re_parse (c # rest) cur stack =
     (if c = CHR 0x5C then
        (case rest of
           [] \<Rightarrow> None
         | d # rest' \<Rightarrow>
             if d \<in> set re_special_chars then re_parse rest' (Chr d # cur) stack else None)
      else if c = CHR ''.'' then re_parse rest (AnyChar # cur) stack
      else if c = CHR ''('' then re_parse rest [] (cur # stack)
      else if c = CHR '')'' then
        (case stack of
           [] \<Rightarrow> None
         | up # stack' \<Rightarrow> re_parse rest (seq_of (rev cur) # up) stack')
      else if c = CHR ''*'' then
        (case cur of [] \<Rightarrow> None | a # cur' \<Rightarrow> re_parse rest (Star a # cur') stack)
      else if c = CHR ''?'' then
        (case cur of [] \<Rightarrow> None | a # cur' \<Rightarrow> re_parse rest (Opt a # cur') stack)
      else if c \<in> set re_special_chars then None
      else re_parse rest (Chr c # cur) stack)"

definition lang_concat :: "string set \<Rightarrow> string set \<Rightarrow> string set" where
  "lang_concat A B = {xs @ ys | xs ys. xs \<in> A \<and> ys \<in> B}"

inductive_set lang_star :: "string set \<Rightarrow> string set" for A :: "string set" where
  lang_star_empty: "[] \<in> lang_star A"
| lang_star_more: "x \<in> A \<Longrightarrow> xs \<in> lang_star A \<Longrightarrow> x @ xs \<in> lang_star A"

primrec lang :: "rx \<Rightarrow> string set" where
  "lang Eps = {[]}"
| "lang (Chr c) = {[c]}"
| "lang AnyChar = {[c] | c. c \<noteq> CHR 0x0A}"
| "lang (Cat r s) = lang_concat (lang r) (lang s)"
| "lang (Opt r) = insert [] (lang r)"
| "lang (Star r) = lang_star (lang r)"

definition re_fullmatch :: "pattern \<Rightarrow> string \<Rightarrow> bool" where
  "re_fullmatch p tag =
     (case p of
        Pattern source \<Rightarrow>
          (case re_parse source [] [] of None \<Rightarrow> False | Some r \<Rightarrow> tag \<in> lang r))"

text \<open>
  \<^verbatim>\<open>d[key] = v\<close> on a dictionary kept as the list of its items: an existing key keeps
  its place.
\<close>

fun dict_set :: "(string \<times> 'v) list \<Rightarrow> string \<Rightarrow> 'v \<Rightarrow> (string \<times> 'v) list" where
  "dict_set [] key v = [(key, v)]"
| "dict_set (kv # d) key v = (if fst kv = key then (key, v) # d else kv # dict_set d key v)"

text \<open>An entry of the report: \<^verbatim>\<open>{"range": value_range, "bitwidth": bitwidth}\<close>.\<close>

record report_entry =
  entry_range :: "int list"
  entry_bitwidth :: int

fun report_loop ::
  "'a circuit \<Rightarrow> (string \<times> string list \<times> ('a, 'm) quantized_op) list
     \<Rightarrow> (string \<times> report_entry) list \<Rightarrow> (string \<times> report_entry) list" where
  "report_loop c [] op_names_to_report = op_names_to_report"
| "report_loop c (item # rest) op_names_to_report =
     (let op_inst = snd (snd item);
          value_range = integer_range c (tag_pattern (op_instance_name op_inst));
          bitwidth = maximum_integer_bit_width c (tag_pattern (op_instance_name op_inst))
      in report_loop c rest
           (case value_range of
              None \<Rightarrow> op_names_to_report
            | Some r \<Rightarrow>
                if bitwidth \<ge> 0
                then dict_set op_names_to_report (op_instance_name op_inst)
                       \<lparr>entry_range = r, entry_bitwidth = bitwidth\<rparr>
                else op_names_to_report))"

definition bitwidth_and_range_report ::
  "('a, 'm) quantized_module \<Rightarrow> (string \<times> report_entry) list option" where
  "bitwidth_and_range_report m =
     (case fhe_circuit m of
        None \<Rightarrow> None
      | Some c \<Rightarrow> Some (report_loop c (quant_layers_dict m) []))"

section \<open>Concrete modules\<close>

text \<open>
  A one-input module over integer elements whose graph is a single identity operation,
  with an input quantizer that tags its argument as 64-bit integers; the instances the
  closed theorems below are evaluated on.
\<close>

definition ex_quantizer :: "(int, unit) uniform_quantizer" where
  "ex_quantizer = \<lparr>n_bits = 8, quant_options = (), quant_stats = (), quant_params = (),
                   quant = (\<lambda>a. Inr (a\<lparr>dtype := Int64\<rparr>))\<rparr>"

definition ex_identity_op :: "(int, unit) quantized_op" where
  "ex_identity_op = \<lparr>op_type = ''Identity'', op_instance_name = ''id_0'',
      run = (\<lambda>inputs tr. (Inr (case inputs of [] \<Rightarrow> NoneValue | v # _ \<Rightarrow> v), [], tr)),
      error_tracker = None, debug_value_tracker = None\<rparr>"

definition ex_module :: "(int, unit) quantized_module" where
  "ex_module = \<lparr>ordered_module_input_names = [''x''], ordered_module_output_names = [''y''],
      quant_layers_dict = [(''y'', [''x''], ex_identity_op)],
      input_quantizers = [ex_quantizer], fhe_circuit = None\<rparr>"

definition ex_int_array :: "int ndarray" where
  "ex_int_array = \<lparr>dtype = Int64, shape = [3], data = [1, 2, 3]\<rparr>"

text \<open>An element type for a stacked tuple: the first array's, float64 for no array.\<close>

definition ex_array_dtype :: "int ndarray list \<Rightarrow> exn + dtype" where
  "ex_array_dtype arrs = (case arrs of [] \<Rightarrow> Inr Float64 | a # _ \<Rightarrow> Inr (dtype a))"

definition ex_float_array :: "int ndarray" where
  "ex_float_array = \<lparr>dtype = Float64, shape = [3], data = [1, 2, 3]\<rparr>"

text \<open>The same graph with two inputs.\<close>

definition ex_module2 :: "(int, unit) quantized_module" where
  "ex_module2 = \<lparr>ordered_module_input_names = [''x'', ''z''], ordered_module_output_names = [''y''],
      quant_layers_dict = [(''y'', [''x'', ''z''], ex_identity_op)],
      input_quantizers = [ex_quantizer, ex_quantizer], fhe_circuit = None\<rparr>"

text \<open>
  A circuit that returns its first argument in both modes and knows one tag, that of the
  identity operation, and an environment of \<^verbatim>\<open>compile\<close> whose external compiler
  returns it.
\<close>

definition ex_circuit :: "int circuit" where
  "ex_circuit = \<lparr>simulate = (\<lambda>sample. case sample of [] \<Rightarrow> Inl (Lib TypeError) | s # _ \<Rightarrow> Inr s),
      encrypt_run_decrypt = (\<lambda>sample. case sample of [] \<Rightarrow> Inl (Lib TypeError) | s # _ \<Rightarrow> Inr s),
      integer_range = (\<lambda>p. if p = tag_pattern ''id_0'' then Some [0, 3] else None),
      maximum_integer_bit_width = (\<lambda>p. if p = tag_pattern ''id_0'' then 2 else - 1)\<rparr>"

definition ex_env :: "(int, unit, unit, unit, unit, unit) compile_env" where
  "ex_env = \<lparr>make_compiler = (\<lambda>m. Inr ()),
      check_there_is_no_p_error_options_in_configuration = (\<lambda>cfg. Inr ()),
      manage_parameters_for_pbs_errors = (\<lambda>p g. Inr (p, g)),
      compiler_compile = (\<lambda>k inputset opts. Inr ex_circuit)\<rparr>"

definition ex_options :: "(unit, unit, unit) compile_options" where
  "ex_options = \<lparr>configuration = None, artifacts = None, show_mlir = False,
      use_virtual_lib = False, p_error = None, global_p_error = None, verbose = False\<rparr>"

definition ex_short_array :: "int ndarray" where
  "ex_short_array = \<lparr>dtype = Float64, shape = [2], data = [4, 5]\<rparr>"

text \<open>An operation that reports its first input as not quantized.\<close>

definition ex_faulty_op :: "(int, unit) quantized_op" where
  "ex_faulty_op = \<lparr>op_type = ''Gemm'', op_instance_name = ''gemm_1'',
      run = (\<lambda>inputs tr. (Inr (case inputs of [] \<Rightarrow> NoneValue | v # _ \<Rightarrow> v), [0], tr)),
      error_tracker = None, debug_value_tracker = None\<rparr>"

text \<open>A graph of two operations that each report their first input.\<close>

definition ex_module_two_faults :: "(int, unit) quantized_module" where
  "ex_module_two_faults = \<lparr>ordered_module_input_names = [''x''], ordered_module_output_names = [''y''],
      quant_layers_dict = [(''t'', [''x''], ex_faulty_op), (''y'', [''t''], ex_faulty_op)],
      input_quantizers = [ex_quantizer], fhe_circuit = None\<rparr>"

text \<open>
  An identity operation that records its first input in the trace installed on it, under
  its instance name, and a module that runs it before the operation that reports a fault.
\<close>

definition ex_tracing_op :: "(int, unit) quantized_op" where
  "ex_tracing_op = \<lparr>op_type = ''Identity'', op_instance_name = ''id_0'',
      run = (\<lambda>inputs tr.
               (Inr (case inputs of [] \<Rightarrow> NoneValue | v # _ \<Rightarrow> v), [],
                case tr of
                  None \<Rightarrow> None
                | Some t \<Rightarrow> Some (dict_set t ''id_0'' (map (\<lambda>v. (Inl 0, v)) (take 1 inputs))))),
      error_tracker = None, debug_value_tracker = None\<rparr>"

definition ex_module_trace :: "(int, unit) quantized_module" where
  "ex_module_trace = \<lparr>ordered_module_input_names = [''x''], ordered_module_output_names = [''y''],
      quant_layers_dict = [(''t'', [''x''], ex_tracing_op), (''y'', [''t''], ex_faulty_op)],
      input_quantizers = [ex_quantizer], fhe_circuit = None\<rparr>"

definition ex_other_array :: "int ndarray" where
  "ex_other_array = \<lparr>dtype = Int64, shape = [1], data = [7]\<rparr>"

text \<open>
  A promotion of element types for equal types (the first one), the one-input module with
  a compiled circuit, a batch of two samples of two values, and a batch of no sample.
\<close>

definition ex_result_type :: "dtype list \<Rightarrow> dtype" where
  "ex_result_type ds = (case ds of [] \<Rightarrow> Float64 | d # _ \<Rightarrow> d)"

definition ex_compiled_module :: "(int, unit) quantized_module" where
  "ex_compiled_module = \<lparr>ordered_module_input_names = [''x''], ordered_module_output_names = [''y''],
      quant_layers_dict = [(''y'', [''x''], ex_identity_op)],
      input_quantizers = [ex_quantizer], fhe_circuit = Some ex_circuit\<rparr>"

definition ex_batch :: "int ndarray" where
  "ex_batch = \<lparr>dtype = Int64, shape = [2, 2], data = [1, 2, 3, 4]\<rparr>"

definition ex_empty_batch :: "int ndarray" where
  "ex_empty_batch = \<lparr>dtype = Int64, shape = [0, 2], data = []\<rparr>"

text \<open>
  A graph of two operations whose instance names hold characters that \<^verbatim>\<open>re.escape\<close>
  escapes, and a circuit whose graph knows the pattern of the first name only (written
  out: \<^verbatim>\<open>conv\.1(\..*)?\<close>).
\<close>

definition ex_conv_op :: "(int, unit) quantized_op" where
  "ex_conv_op = \<lparr>op_type = ''Conv'', op_instance_name = ''conv.1'',
      run = (\<lambda>inputs tr. (Inr (case inputs of [] \<Rightarrow> NoneValue | v # _ \<Rightarrow> v), [], tr)),
      error_tracker = None, debug_value_tracker = None\<rparr>"

definition ex_relu_op :: "(int, unit) quantized_op" where
  "ex_relu_op = \<lparr>op_type = ''Relu'', op_instance_name = ''relu-2'',
      run = (\<lambda>inputs tr. (Inr (case inputs of [] \<Rightarrow> NoneValue | v # _ \<Rightarrow> v), [], tr)),
      error_tracker = None, debug_value_tracker = None\<rparr>"

definition ex_report_circuit :: "int circuit" where
  "ex_report_circuit = \<lparr>simulate = (\<lambda>sample. Inl (Lib TypeError)),
      encrypt_run_decrypt = (\<lambda>sample. Inl (Lib TypeError)),
      integer_range =
        (\<lambda>p. if p = Pattern (''conv'' @ [CHR 0x5C] @ ''.1('' @ [CHR 0x5C] @ ''..*)?'')
              then Some [- 4, 3] else None),
      maximum_integer_bit_width =
        (\<lambda>p. if p = Pattern (''conv'' @ [CHR 0x5C] @ ''.1('' @ [CHR 0x5C] @ ''..*)?'')
              then 3 else - 1)\<rparr>"

definition ex_report_module :: "(int, unit) quantized_module" where
  "ex_report_module = \<lparr>ordered_module_input_names = [''x''], ordered_module_output_names = [''y''],
      quant_layers_dict = [(''t'', [''x''], ex_conv_op), (''y'', [''t''], ex_relu_op)],
      input_quantizers = [ex_quantizer], fhe_circuit = Some ex_report_circuit\<rparr>"

text \<open>
  A circuit whose two ways of running differ: the simulation returns its first argument,
  the encrypted run returns it with 10 added to every value; and the one-input module
  compiled to it.
\<close>

definition ex_two_mode_circuit :: "int circuit" where
  "ex_two_mode_circuit = \<lparr>
      simulate = (\<lambda>sample. case sample of [] \<Rightarrow> Inl (Lib TypeError) | s # _ \<Rightarrow> Inr s),
      encrypt_run_decrypt =
        (\<lambda>sample. case sample of
                     [] \<Rightarrow> Inl (Lib TypeError)
                   | s # _ \<Rightarrow> Inr (s\<lparr>data := map (\<lambda>x. x + 10) (data s)\<rparr>)),
      integer_range = (\<lambda>p. None),
      maximum_integer_bit_width = (\<lambda>p. - 1)\<rparr>"

definition ex_two_mode_module :: "(int, unit) quantized_module" where
  "ex_two_mode_module = \<lparr>ordered_module_input_names = [''x''], ordered_module_output_names = [''y''],
      quant_layers_dict = [(''y'', [''x''], ex_identity_op)],
      input_quantizers = [ex_quantizer], fhe_circuit = Some ex_two_mode_circuit\<rparr>"

text \<open>
  An environment whose external compiler inspects the input set it is handed: it returns
  the circuit for the two input sets written out here (three samples of one input, two
  samples of two inputs) and raises for any other.
\<close>

definition ex_second_array :: "int ndarray" where
  "ex_second_array = \<lparr>dtype = Float64, shape = [2], data = [6, 7]\<rparr>"

definition ex_inputset_single :: "(exn + int inputset_item) list" where
  "ex_inputset_single =
     [Inr (One \<lparr>dtype = Int64, shape = [1], data = [1]\<rparr>),
      Inr (One \<lparr>dtype = Int64, shape = [1], data = [2]\<rparr>),
      Inr (One \<lparr>dtype = Int64, shape = [1], data = [3]\<rparr>)]"

definition ex_inputset_pairs :: "(exn + int inputset_item) list" where
  "ex_inputset_pairs =
     [Inr (Many [\<lparr>dtype = Int64, shape = [1], data = [4]\<rparr>,
                 \<lparr>dtype = Int64, shape = [1], data = [6]\<rparr>]),
      Inr (Many [\<lparr>dtype = Int64, shape = [1], data = [5]\<rparr>,
                 \<lparr>dtype = Int64, shape = [1], data = [7]\<rparr>])]"

definition ex_probe_env :: "(int, unit, unit, unit, unit, unit) compile_env" where
  "ex_probe_env = \<lparr>make_compiler = (\<lambda>m. Inr ()),
      check_there_is_no_p_error_options_in_configuration = (\<lambda>cfg. Inr ()),
      manage_parameters_for_pbs_errors = (\<lambda>p g. Inr (p, g)),
      compiler_compile =
        (\<lambda>k inputset opts.
           if inputset = ex_inputset_single \<or> inputset = ex_inputset_pairs then Inr ex_circuit
           else Inl (Exn ValueError ''unexpected input set''))\<rparr>"



section \<open>Arity errors\<close>

text \<open>
  Claim C6. A call of \<^verbatim>\<open>quantize_input\<close> or \<^verbatim>\<open>_forward\<close> with a number of
  arguments other than the number of input quantizers, or of
  \<^verbatim>\<open>set_inputs_quantization_parameters\<close> with a number of quantizers other than the
  number of declared input names, raises a TypeError whose message gives the actual and
  the expected count, and leaves the module (and the store) as it was;
  \<^verbatim>\<open>quantize_input\<close> only reads the module.
\<close>

theorem arity_mismatch_type_error:
  "(length values \<noteq> length (input_quantizers m) \<longrightarrow>
      quantize_input array_dtype m values =
        Inl (Exn TypeError (''Got '' @ str_nat (length values) @ '' inputs, expected ''
                            @ str_nat (length (input_quantizers m)))))
   \<and> (length qvalues \<noteq> length (input_quantizers m) \<longrightarrow>
      underscore_forward dflt m qvalues h =
        (Inl (Exn TypeError (''Got '' @ str_nat (length qvalues) @ '' inputs, expected ''
                             @ str_nat (length (input_quantizers m)))), m, h))
   \<and> (length input_q_params \<noteq> length (ordered_module_input_names m) \<longrightarrow>
      set_inputs_quantization_parameters m input_q_params =
        (Inl (Exn TypeError (''Got '' @ str_nat (length input_q_params) @ '' inputs, expected ''
                             @ str_nat (length (ordered_module_input_names m)))), m))"
  by (simp add: quantize_input_def underscore_forward_def set_inputs_quantization_parameters_def
        assert_true_def arity_msg_def Let_def)

theorem arity_mismatch_type_error_witness:
  "quantize_input ex_array_dtype ex_module [ex_int_array, ex_int_array] =
     Inl (Exn TypeError ''Got 2 inputs, expected 1'')
   \<and> underscore_forward AssertionError ex_module [] [] =
     (Inl (Exn TypeError ''Got 0 inputs, expected 1''), ex_module, [])
   \<and> set_inputs_quantization_parameters ex_module [] =
     (Inl (Exn TypeError ''Got 0 inputs, expected 1''), ex_module)"
  using arity_mismatch_type_error
    [of "[ex_int_array, ex_int_array]" ex_module ex_array_dtype "[]" AssertionError "[]" "[]"]
  by (simp add: ex_module_def str_nat.simps digit_char_def)

section \<open>Running without a compiled circuit\<close>




section \<open>The result of \<^verbatim>\<open>quantize_input\<close>\<close>

lemma quant_values_Inr:
  "quant_values quantizers values idxs = Inr qs \<Longrightarrow>
     length qs = length idxs
     \<and> (\<forall>j<length idxs. quant (quantizers ! (idxs ! j)) (values ! (idxs ! j)) = Inr (qs ! j))"
proof (induction idxs arbitrary: qs)
  case Nil
  then show ?case by simp
next
  case (Cons idx rest)
  from Cons.prems obtain q qs' where
    q: "quant (quantizers ! idx) (values ! idx) = Inr q"
    and r: "quant_values quantizers values rest = Inr qs'"
    and e: "qs = q # qs'"
    by (auto split: sum.splits)
  from Cons.IH [OF r] show ?case
    using q e by (auto simp: nth_Cons split: nat.splits)
qed

text \<open>
  Claim C10. A call of \<^verbatim>\<open>quantize_input\<close> that returns gives, for a module with
  exactly one input quantizer, the quantized array itself (what the quantizer made of the
  one argument), and for a module with two or more input quantizers a tuple with one
  array per input, the \<open>i\<close>-th made by the \<open>i\<close>-th quantizer from the \<open>i\<close>-th argument.
\<close>

theorem quantize_input_result_shape:
  assumes "quantize_input array_dtype m values = Inr r"
  shows "(length (input_quantizers m) = 1 \<longrightarrow>
            (\<exists>q. r = Single q \<and> quant (input_quantizers m ! 0) (values ! 0) = Inr q))
         \<and> (2 \<le> length (input_quantizers m) \<longrightarrow>
            (\<exists>qs. r = Tuple qs \<and> length qs = length (input_quantizers m)
                  \<and> (\<forall>i<length qs. quant (input_quantizers m ! i) (values ! i) = Inr (qs ! i))))"
proof -
  from assms have len: "length values = length (input_quantizers m)"
    by (auto simp: quantize_input_def assert_true_def Let_def split: if_splits)
  from assms len obtain qs where
    qv: "quant_values (input_quantizers m) values [0..<length values] = Inr qs"
    and r: "r = (if length qs = 1 then Single (qs ! 0) else Tuple qs)"
    by (auto simp: quantize_input_def assert_true_def Let_def split: sum.splits if_splits)
  from quant_values_Inr [OF qv] have
    l: "length qs = length values"
    and each: "\<forall>j<length values. quant (input_quantizers m ! j) (values ! j) = Inr (qs ! j)"
    by auto
  show ?thesis using r l each len by auto
qed

theorem quantize_input_result_shape_witness:
  "quantize_input ex_array_dtype ex_module [ex_float_array] =
     Inr (Single (ex_float_array\<lparr>dtype := Int64\<rparr>))
   \<and> quantize_input ex_array_dtype ex_module2 [ex_float_array, ex_int_array] =
       Inr (Tuple [ex_float_array\<lparr>dtype := Int64\<rparr>, ex_int_array\<lparr>dtype := Int64\<rparr>])"
proof -
  have a: "quantize_input ex_array_dtype ex_module [ex_float_array] =
             Inr (Single (ex_float_array\<lparr>dtype := Int64\<rparr>))"
    by (simp add: quantize_input_def assert_true_def ex_module_def ex_quantizer_def
          ex_array_dtype_def ex_float_array_def arity_msg_def)
  have b: "quantize_input ex_array_dtype ex_module2 [ex_float_array, ex_int_array] =
             Inr (Tuple [ex_float_array\<lparr>dtype := Int64\<rparr>, ex_int_array\<lparr>dtype := Int64\<rparr>])"
    by (simp add: quantize_input_def assert_true_def ex_module2_def ex_quantizer_def
          ex_array_dtype_def ex_float_array_def ex_int_array_def arity_msg_def upt_rec)
  from quantize_input_result_shape [OF a] quantize_input_result_shape [OF b] a b
  show ?thesis by simp
qed

section \<open>The checks of \<^verbatim>\<open>compile\<close>\<close>

lemma all_same_length_True:
  "all_same_length ref_len inputs = Inr True \<longleftrightarrow> list_all (\<lambda>a. shape0 a = Inr ref_len) inputs"
  by (induction inputs) (auto split: sum.splits)

lemma all_same_length_dims:
  "list_all (\<lambda>a. shape a \<noteq> []) inputs \<Longrightarrow>
     all_same_length ref_len inputs = Inr (list_all (\<lambda>a. shape0 a = Inr ref_len) inputs)"
  by (induction inputs) (auto simp: shape0_def split: sum.splits list.splits)

lemma compile_checks_fail:
  assumes "list_ex (\<lambda>a. shape0 a \<noteq> shape0 (hd inputs)) inputs
             \<or> list_ex (\<lambda>a. is_integer (dtype a)) inputs"
  shows "\<exists>e. compile_checks dflt inputs = Inl e"
proof -
  from assms have "inputs \<noteq> []" by (auto simp: list_ex_iff)
  then obtain first rest where fr: "inputs = first # rest" by (cases inputs) auto
  show ?thesis
  proof (cases "shape0 first")
    case (Inl e)
    then show ?thesis by (simp add: compile_checks_def fr)
  next
    case (Inr ref_len)
    show ?thesis
    proof (cases "all_same_length ref_len inputs")
      case (Inl e)
      then show ?thesis using Inr by (simp add: compile_checks_def fr)
    next
      case same: (Inr b)
      show ?thesis
      proof (cases b)
        case False
        then show ?thesis using Inr same by (simp add: compile_checks_def fr assert_true_def)
      next
        case True
        with same have "list_all (\<lambda>a. shape0 a = Inr ref_len) inputs"
          by (simp add: all_same_length_True)
        with assms Inr have "list_ex (\<lambda>a. is_integer (dtype a)) inputs"
          by (auto simp: fr list_ex_iff list_all_iff)
        then show ?thesis using Inr same True
          by (simp add: compile_checks_def fr assert_true_def)
      qed
    qed
  qed
qed

lemma compile_checks_mismatch:
  assumes "list_all (\<lambda>a. shape a \<noteq> []) inputs"
    and "list_ex (\<lambda>a. shape0 a \<noteq> shape0 (hd inputs)) inputs"
  shows "compile_checks dflt inputs = Inl (Exn dflt ''Mismatched dataset lengths'')"
proof -
  from assms(2) obtain first rest where fr: "inputs = first # rest"
    by (cases inputs) (auto simp: list_ex_iff)
  from assms(1) fr obtain ref_len where rl: "shape0 first = Inr ref_len"
    by (cases "shape first") (auto simp: shape0_def)
  from assms(2) fr rl have "\<not> list_all (\<lambda>a. shape0 a = Inr ref_len) inputs"
    by (auto simp: list_ex_iff list_all_iff)
  with all_same_length_dims [OF assms(1), of ref_len]
  have "all_same_length ref_len inputs = Inr False" by simp
  with rl show ?thesis by (simp add: compile_checks_def fr assert_true_def)
qed

lemma compile_checks_integer:
  assumes "inputs \<noteq> []" and "shape (hd inputs) \<noteq> []"
    and "list_all (\<lambda>a. shape0 a = shape0 (hd inputs)) inputs"
  shows "compile_checks dflt inputs =
           (if list_ex (\<lambda>a. is_integer (dtype a)) inputs
            then Inl (Exn AssertionError already_quantized_msg) else Inr ())"
proof -
  from assms(1) obtain first rest where fr: "inputs = first # rest" by (cases inputs) auto
  from assms(2) fr obtain ref_len where rl: "shape0 first = Inr ref_len"
    by (cases "shape first") (auto simp: shape0_def)
  from assms(3) fr rl have "all_same_length ref_len inputs = Inr True"
    by (simp add: all_same_length_True)
  with rl show ?thesis by (simp add: compile_checks_def fr assert_true_def)
qed

text \<open>
  Claim C7. \<^verbatim>\<open>compile\<close> fails at its two checks, with the module unchanged and
  whatever the external collaborators \<open>env\<close> would do (none of them is reached),
  whenever some input's leading dimension is not the first input's (an input without a
  leading dimension included) or some input is of an integer type. When every input has a
  leading dimension, the first failure is the error ``Mismatched dataset lengths'' (raised
  through \<^verbatim>\<open>assert_true\<close> with that helper's default class \<open>dflt\<close>); when the
  lengths agree, the second is the AssertionError about already-quantized values. When
  there is a first input with a leading dimension, all leading dimensions agree and no
  input is of an integer type, both checks pass and \<^verbatim>\<open>compile\<close> goes on to its
  remaining steps.
\<close>

theorem compile_checks_guard:
  "(list_ex (\<lambda>a. shape0 a \<noteq> shape0 (hd (to_tuple inputs0))) (to_tuple inputs0)
      \<or> list_ex (\<lambda>a. is_integer (dtype a)) (to_tuple inputs0)
     \<longrightarrow> (\<exists>e. compile dflt array_dtype env m inputs0 opts = (Inl e, m)))
   \<and> (list_all (\<lambda>a. shape a \<noteq> []) (to_tuple inputs0)
      \<and> list_ex (\<lambda>a. shape0 a \<noteq> shape0 (hd (to_tuple inputs0))) (to_tuple inputs0)
     \<longrightarrow> compile dflt array_dtype env m inputs0 opts =
           (Inl (Exn dflt ''Mismatched dataset lengths''), m))
   \<and> (to_tuple inputs0 \<noteq> [] \<and> shape (hd (to_tuple inputs0)) \<noteq> []
      \<and> list_all (\<lambda>a. shape0 a = shape0 (hd (to_tuple inputs0))) (to_tuple inputs0)
      \<and> list_ex (\<lambda>a. is_integer (dtype a)) (to_tuple inputs0)
     \<longrightarrow> compile dflt array_dtype env m inputs0 opts =
           (Inl (Exn AssertionError
              ''Inputs used for compiling a QuantizedModule should only be floating points and notalready-quantized values.''), m))
   \<and> (to_tuple inputs0 \<noteq> [] \<and> shape (hd (to_tuple inputs0)) \<noteq> []
      \<and> list_all (\<lambda>a. shape0 a = shape0 (hd (to_tuple inputs0))) (to_tuple inputs0)
      \<and> list_all (\<lambda>a. \<not> is_integer (dtype a)) (to_tuple inputs0)
     \<longrightarrow> compile_checks dflt (to_tuple inputs0) = Inr ()
         \<and> compile dflt array_dtype env m inputs0 opts =
             (case compile_steps array_dtype env m (to_tuple inputs0) opts of
                Inl e \<Rightarrow> (Inl e, m)
              | Inr c \<Rightarrow> (Inr c, m\<lparr>fhe_circuit := Some c\<rparr>)))"
proof -
  let ?inputs = "to_tuple inputs0"
  have a: "list_ex (\<lambda>a. shape0 a \<noteq> shape0 (hd ?inputs)) ?inputs
             \<or> list_ex (\<lambda>a. is_integer (dtype a)) ?inputs
           \<longrightarrow> (\<exists>e. compile dflt array_dtype env m inputs0 opts = (Inl e, m))"
  proof
    assume "list_ex (\<lambda>a. shape0 a \<noteq> shape0 (hd ?inputs)) ?inputs
              \<or> list_ex (\<lambda>a. is_integer (dtype a)) ?inputs"
    from compile_checks_fail [OF this, of dflt]
    show "\<exists>e. compile dflt array_dtype env m inputs0 opts = (Inl e, m)"
      by (auto simp: compile_def)
  qed
  have b: "list_all (\<lambda>a. shape a \<noteq> []) ?inputs
             \<and> list_ex (\<lambda>a. shape0 a \<noteq> shape0 (hd ?inputs)) ?inputs
           \<longrightarrow> compile dflt array_dtype env m inputs0 opts =
                 (Inl (Exn dflt ''Mismatched dataset lengths''), m)"
    by (simp add: compile_def compile_checks_mismatch)
  have c: "?inputs \<noteq> [] \<and> shape (hd ?inputs) \<noteq> []
             \<and> list_all (\<lambda>a. shape0 a = shape0 (hd ?inputs)) ?inputs
             \<and> list_ex (\<lambda>a. is_integer (dtype a)) ?inputs
           \<longrightarrow> compile dflt array_dtype env m inputs0 opts =
                 (Inl (Exn AssertionError
                    ''Inputs used for compiling a QuantizedModule should only be floating points and notalready-quantized values.''), m)"
    by (simp add: compile_def compile_checks_integer already_quantized_msg_def)
  have d: "?inputs \<noteq> [] \<and> shape (hd ?inputs) \<noteq> []
             \<and> list_all (\<lambda>a. shape0 a = shape0 (hd ?inputs)) ?inputs
             \<and> list_all (\<lambda>a. \<not> is_integer (dtype a)) ?inputs
           \<longrightarrow> compile_checks dflt ?inputs = Inr ()
               \<and> compile dflt array_dtype env m inputs0 opts =
                   (case compile_steps array_dtype env m ?inputs opts of
                      Inl e \<Rightarrow> (Inl e, m)
                    | Inr c \<Rightarrow> (Inr c, m\<lparr>fhe_circuit := Some c\<rparr>))"
  proof
    assume p: "?inputs \<noteq> [] \<and> shape (hd ?inputs) \<noteq> []
             \<and> list_all (\<lambda>a. shape0 a = shape0 (hd ?inputs)) ?inputs
             \<and> list_all (\<lambda>a. \<not> is_integer (dtype a)) ?inputs"
    then have "\<not> list_ex (\<lambda>a. is_integer (dtype a)) ?inputs"
      by (auto simp: list_ex_iff list_all_iff)
    with p have "compile_checks dflt ?inputs = Inr ()"
      by (simp add: compile_checks_integer)
    then show "compile_checks dflt ?inputs = Inr ()
               \<and> compile dflt array_dtype env m inputs0 opts =
                   (case compile_steps array_dtype env m ?inputs opts of
                      Inl e \<Rightarrow> (Inl e, m)
                    | Inr c \<Rightarrow> (Inr c, m\<lparr>fhe_circuit := Some c\<rparr>))"
      by (simp add: compile_def)
  qed
  show ?thesis
    by (intro conjI) (rule a, rule b, rule c, rule d)
qed

theorem compile_checks_guard_witness:
  "compile AssertionError ex_array_dtype ex_env ex_module2 (Tuple [ex_float_array, ex_short_array]) ex_options
     = (Inl (Exn AssertionError ''Mismatched dataset lengths''), ex_module2)
   \<and> compile AssertionError ex_array_dtype ex_env ex_module (Single ex_int_array) ex_options
     = (Inl (Exn AssertionError
          ''Inputs used for compiling a QuantizedModule should only be floating points and notalready-quantized values.''),
        ex_module)
   \<and> compile_checks AssertionError [ex_float_array] = Inr ()
   \<and> compile AssertionError ex_array_dtype ex_env ex_module (Single ex_float_array) ex_options
     = (Inr ex_circuit, ex_module\<lparr>fhe_circuit := Some ex_circuit\<rparr>)"
proof -
  have s: "compile_steps ex_array_dtype ex_env ex_module [ex_float_array] ex_options = Inr ex_circuit"
    by (simp add: compile_steps_def ex_env_def quantize_input_def assert_true_def ex_module_def
          ex_quantizer_def ex_array_dtype_def ex_float_array_def get_inputset_generator_def
          to_tuple_def iter_rows_def)
  from compile_checks_guard
         [of "Tuple [ex_float_array, ex_short_array]" AssertionError ex_array_dtype ex_env ex_module2 ex_options]
  have a: "compile AssertionError ex_array_dtype ex_env ex_module2 (Tuple [ex_float_array, ex_short_array]) ex_options
     = (Inl (Exn AssertionError ''Mismatched dataset lengths''), ex_module2)"
    by (simp add: to_tuple_def ex_float_array_def ex_short_array_def shape0_def)
  from compile_checks_guard
         [of "Single ex_int_array" AssertionError ex_array_dtype ex_env ex_module ex_options]
  have b: "compile AssertionError ex_array_dtype ex_env ex_module (Single ex_int_array) ex_options
     = (Inl (Exn AssertionError
          ''Inputs used for compiling a QuantizedModule should only be floating points and notalready-quantized values.''),
        ex_module)"
    by (simp add: to_tuple_def ex_int_array_def)
  from compile_checks_guard
         [of "Single ex_float_array" AssertionError ex_array_dtype ex_env ex_module ex_options]
  have c: "compile_checks AssertionError [ex_float_array] = Inr ()
   \<and> compile AssertionError ex_array_dtype ex_env ex_module (Single ex_float_array) ex_options
     = (Inr ex_circuit, ex_module\<lparr>fhe_circuit := Some ex_circuit\<rparr>)"
    by (simp add: to_tuple_def ex_float_array_def s [unfolded ex_float_array_def])
  from a b c show ?thesis by simp
qed

section \<open>The report of ranges and bit-widths\<close>

lemma map_of_dict_set: "map_of (dict_set d key v) = (map_of d)(key \<mapsto> v)"
  by (induction d) (auto simp: fun_eq_iff)

lemma keys_dict_set: "fst ` set (dict_set d key v) = insert key (fst ` set d)"
  by (induction d) auto

lemma distinct_dict_set: "distinct (map fst d) \<Longrightarrow> distinct (map fst (dict_set d key v))"
  by (induction d) (auto simp: keys_dict_set)

lemma distinct_report_loop:
  "distinct (map fst rep) \<Longrightarrow> distinct (map fst (report_loop c items rep))"
  by (induction items arbitrary: rep) (auto simp: Let_def distinct_dict_set split: option.splits)

lemma map_of_report_loop:
  "map_of (report_loop c items rep) name =
     (if (\<exists>item\<in>set items. op_instance_name (snd (snd item)) = name)
          \<and> integer_range c (tag_pattern name) \<noteq> None
          \<and> 0 \<le> maximum_integer_bit_width c (tag_pattern name)
      then Some \<lparr>entry_range = the (integer_range c (tag_pattern name)),
                  entry_bitwidth = maximum_integer_bit_width c (tag_pattern name)\<rparr>
      else map_of rep name)"
proof (induction items arbitrary: rep)
  case Nil
  then show ?case by simp
next
  case (Cons item rest)
  show ?case
    by (cases "integer_range c (tag_pattern (op_instance_name (snd (snd item))))")
       (auto simp: Cons.IH Let_def map_of_dict_set)
qed

lemma report_entries_by_pattern:
  "(fhe_circuit m = None \<longrightarrow> bitwidth_and_range_report m = None)
   \<and> (fhe_circuit m = Some c \<longrightarrow>
        (\<exists>rep. bitwidth_and_range_report m = Some rep \<and> distinct (map fst rep)
           \<and> (\<forall>name e. (name, e) \<in> set rep \<longleftrightarrow>
                 (\<exists>item\<in>set (quant_layers_dict m). op_instance_name (snd (snd item)) = name)
                 \<and> integer_range c (tag_pattern name) = Some (entry_range e)
                 \<and> 0 \<le> maximum_integer_bit_width c (tag_pattern name)
                 \<and> entry_bitwidth e = maximum_integer_bit_width c (tag_pattern name))))"
proof (intro conjI impI)
  assume "fhe_circuit m = None"
  then show "bitwidth_and_range_report m = None"
    by (simp add: bitwidth_and_range_report_def)
next
  assume c: "fhe_circuit m = Some c"
  let ?rep = "report_loop c (quant_layers_dict m) []"
  have d: "distinct (map fst ?rep)" by (rule distinct_report_loop) simp
  have "\<And>name e. (name, e) \<in> set ?rep \<longleftrightarrow>
                 (\<exists>item\<in>set (quant_layers_dict m). op_instance_name (snd (snd item)) = name)
                 \<and> integer_range c (tag_pattern name) = Some (entry_range e)
                 \<and> 0 \<le> maximum_integer_bit_width c (tag_pattern name)
                 \<and> entry_bitwidth e = maximum_integer_bit_width c (tag_pattern name)"
  proof -
    fix name e
    have "(name, e) \<in> set ?rep \<longleftrightarrow> map_of ?rep name = Some e"
      using d by simp
    also have "\<dots> \<longleftrightarrow>
                 (\<exists>item\<in>set (quant_layers_dict m). op_instance_name (snd (snd item)) = name)
                 \<and> integer_range c (tag_pattern name) = Some (entry_range e)
                 \<and> 0 \<le> maximum_integer_bit_width c (tag_pattern name)
                 \<and> entry_bitwidth e = maximum_integer_bit_width c (tag_pattern name)"
      by (cases e) (auto simp: map_of_report_loop)
    finally show "(name, e) \<in> set ?rep \<longleftrightarrow>
                 (\<exists>item\<in>set (quant_layers_dict m). op_instance_name (snd (snd item)) = name)
                 \<and> integer_range c (tag_pattern name) = Some (entry_range e)
                 \<and> 0 \<le> maximum_integer_bit_width c (tag_pattern name)
                 \<and> entry_bitwidth e = maximum_integer_bit_width c (tag_pattern name)" .
  qed
  with d c show "\<exists>rep. bitwidth_and_range_report m = Some rep \<and> distinct (map fst rep)
           \<and> (\<forall>name e. (name, e) \<in> set rep \<longleftrightarrow>
                 (\<exists>item\<in>set (quant_layers_dict m). op_instance_name (snd (snd item)) = name)
                 \<and> integer_range c (tag_pattern name) = Some (entry_range e)
                 \<and> 0 \<le> maximum_integer_bit_width c (tag_pattern name)
                 \<and> entry_bitwidth e = maximum_integer_bit_width c (tag_pattern name))"
    by (simp add: bitwidth_and_range_report_def)
qed

lemma re_special_members:
  "CHR 0x5C \<in> set re_special_chars" "CHR ''.'' \<in> set re_special_chars"
  "CHR ''('' \<in> set re_special_chars" "CHR '')'' \<in> set re_special_chars"
  "CHR ''*'' \<in> set re_special_chars" "CHR ''?'' \<in> set re_special_chars"
  by (simp_all add: re_special_chars_def)

lemma re_parse_escaped:
  "re_parse (re_escape name @ rest) cur stack = re_parse rest (rev (map Chr name) @ cur) stack"
proof (induction name arbitrary: cur)
  case Nil
  then show ?case by (simp add: re_escape_def)
next
  case (Cons c name)
  have step: "re_parse (re_escape (c # name) @ rest) cur stack =
                re_parse (re_escape name @ rest) (Chr c # cur) stack"
  proof (cases "c \<in> set re_special_chars")
    case True
    then show ?thesis by (simp add: re_escape_def)
  next
    case False
    with re_special_members have "c \<noteq> CHR 0x5C" "c \<noteq> CHR ''.''" "c \<noteq> CHR ''(''"
      "c \<noteq> CHR '')''" "c \<noteq> CHR ''*''" "c \<noteq> CHR ''?''"
      by auto
    with False show ?thesis by (simp add: re_escape_def)
  qed
  show ?case unfolding step Cons.IH by simp
qed

lemma re_parse_tag_pattern:
  "re_parse (re_escape name @ ''('' @ [CHR 0x5C] @ ''..*)?'') [] [] =
     Some (seq_of (map Chr name @ [Opt (seq_of [Chr CHR ''.'', Star AnyChar])]))"
  unfolding re_parse_escaped by (simp add: re_special_members)

lemma lang_seq_of_chars:
  "lang (seq_of (map Chr name @ rs)) = lang_concat {name} (lang (seq_of rs))"
  by (induction name) (auto simp: seq_of_def lang_concat_def)

lemma lang_star_any: "lang_star {[c] | c. c \<noteq> CHR 0x0A} = {s. CHR 0x0A \<notin> set s}"
proof (intro set_eqI iffI)
  fix s assume "s \<in> lang_star {[c] | c. c \<noteq> CHR 0x0A}"
  then show "s \<in> {s. CHR 0x0A \<notin> set s}"
    by (induction rule: lang_star.induct) auto
next
  fix s :: string assume "s \<in> {s. CHR 0x0A \<notin> set s}"
  then show "s \<in> lang_star {[c] | c. c \<noteq> CHR 0x0A}"
  proof (induction s)
    case Nil
    show ?case by (rule lang_star_empty)
  next
    case (Cons c s)
    then have "[c] \<in> {[c] | c. c \<noteq> CHR 0x0A}" and "s \<in> lang_star {[c] | c. c \<noteq> CHR 0x0A}"
      by auto
    from lang_star_more [OF this] show ?case by simp
  qed
qed

lemma tag_pattern_lang:
  "tag \<in> lang (seq_of (map Chr name @ [Opt (seq_of [Chr CHR ''.'', Star AnyChar])])) \<longleftrightarrow>
     tag = name \<or> (\<exists>rest. tag = name @ ''.'' @ rest \<and> CHR 0x0A \<notin> set rest)"
proof -
  have "lang (seq_of [Opt (seq_of [Chr CHR ''.'', Star AnyChar])]) =
          insert [] {''.'' @ rest | rest. CHR 0x0A \<notin> set rest}"
    by (auto simp: seq_of_def lang_concat_def lang_star_any)
  then have "lang (seq_of (map Chr name @ [Opt (seq_of [Chr CHR ''.'', Star AnyChar])])) =
          lang_concat {name} (insert [] {''.'' @ rest | rest. CHR 0x0A \<notin> set rest})"
    by (simp only: lang_seq_of_chars)
  then show ?thesis by (auto simp: lang_concat_def)
qed

lemma tag_pattern_matches:
  "re_fullmatch (tag_pattern name) tag \<longleftrightarrow>
     tag = name \<or> (\<exists>rest. tag = name @ ''.'' @ rest \<and> CHR 0x0A \<notin> set rest)"
proof -
  have "re_fullmatch (tag_pattern name) tag \<longleftrightarrow>
          tag \<in> lang (seq_of (map Chr name @ [Opt (seq_of [Chr CHR ''.'', Star AnyChar])]))"
    unfolding re_fullmatch_def tag_pattern_def
    by (simp only: pattern.case re_parse_tag_pattern option.case)
  then show ?thesis by (simp only: tag_pattern_lang)
qed

text \<open>
  Claim C8. Without a compiled circuit \<^verbatim>\<open>bitwidth_and_range_report\<close> returns
  \<^verbatim>\<open>None\<close> (it is a value, nothing is raised). With a circuit \<open>c\<close> it returns a
  dictionary (a list of items with distinct keys) that holds an entry \<open>e\<close> under a name
  exactly when the name is the instance name of an operation of the graph, the circuit's
  graph reports the range \<open>entry_range e\<close> (not \<^verbatim>\<open>None\<close>) for the pattern of that
  name, and the maximum bit-width it reports for the pattern is not negative and is
  \<open>entry_bitwidth e\<close>. The pattern of a name is the regular expression with the source
  text \<^verbatim>\<open>re.escape(name)\<close> followed by \<^verbatim>\<open>(\..*)?\<close>, and the tags it matches in full
  are the name itself and the name followed by a period and any text without a newline:
  the operation's own tag and its sub-tags.
\<close>

theorem bitwidth_and_range_report_entries:
  "(fhe_circuit m = None \<longrightarrow> bitwidth_and_range_report m = None)
   \<and> (fhe_circuit m = Some c \<longrightarrow>
        (\<exists>rep. bitwidth_and_range_report m = Some rep \<and> distinct (map fst rep)
           \<and> (\<forall>name e. (name, e) \<in> set rep \<longleftrightarrow>
                 (\<exists>item\<in>set (quant_layers_dict m). op_instance_name (snd (snd item)) = name)
                 \<and> integer_range c (Pattern (re_escape name @ ''('' @ [CHR 0x5C] @ ''..*)?''))
                     = Some (entry_range e)
                 \<and> 0 \<le> maximum_integer_bit_width c
                          (Pattern (re_escape name @ ''('' @ [CHR 0x5C] @ ''..*)?''))
                 \<and> entry_bitwidth e =
                     maximum_integer_bit_width c
                       (Pattern (re_escape name @ ''('' @ [CHR 0x5C] @ ''..*)?'')))))
   \<and> (\<forall>name tag.
         re_fullmatch (Pattern (re_escape name @ ''('' @ [CHR 0x5C] @ ''..*)?'')) tag \<longleftrightarrow>
           tag = name \<or> (\<exists>rest. tag = name @ ''.'' @ rest \<and> CHR 0x0A \<notin> set rest))"
  using report_entries_by_pattern [of m c, unfolded tag_pattern_def]
    tag_pattern_matches [unfolded tag_pattern_def]
  by blast

lemma ex_report_escapes:
  "re_escape ''conv.1'' = ''conv'' @ [CHR 0x5C] @ ''.1''"
  "re_escape ''relu-2'' = ''relu'' @ [CHR 0x5C] @ ''-2''"
  by (simp_all add: re_escape_def re_special_chars_def)

theorem bitwidth_and_range_report_entries_witness:
  "bitwidth_and_range_report ex_module = None
   \<and> bitwidth_and_range_report ex_report_module =
       Some [(''conv.1'', \<lparr>entry_range = [- 4, 3], entry_bitwidth = 3\<rparr>)]
   \<and> re_fullmatch (Pattern (''conv'' @ [CHR 0x5C] @ ''.1('' @ [CHR 0x5C] @ ''..*)?'')) ''conv.1''
   \<and> re_fullmatch (Pattern (''conv'' @ [CHR 0x5C] @ ''.1('' @ [CHR 0x5C] @ ''..*)?'')) ''conv.1.bias''
   \<and> \<not> re_fullmatch (Pattern (''conv'' @ [CHR 0x5C] @ ''.1('' @ [CHR 0x5C] @ ''..*)?'')) ''convx1''
   \<and> \<not> re_fullmatch (Pattern (''conv'' @ [CHR 0x5C] @ ''.1('' @ [CHR 0x5C] @ ''..*)?'')) ''conv.10''"
proof -
  have a: "fhe_circuit ex_module = None" by (simp add: ex_module_def)
  have r: "bitwidth_and_range_report ex_report_module =
       Some [(''conv.1'', \<lparr>entry_range = [- 4, 3], entry_bitwidth = 3\<rparr>)]"
    by (simp add: bitwidth_and_range_report_def ex_report_module_def ex_report_circuit_def
          ex_conv_op_def ex_relu_op_def tag_pattern_def ex_report_escapes)
  note t = bitwidth_and_range_report_entries [of ex_module ex_report_circuit]
  from t a have n: "bitwidth_and_range_report ex_module = None" by blast
  from t have m: "\<And>tag. re_fullmatch (Pattern (re_escape ''conv.1'' @ ''('' @ [CHR 0x5C] @ ''..*)?'')) tag \<longleftrightarrow>
           tag = ''conv.1'' \<or> (\<exists>rest. tag = ''conv.1'' @ ''.'' @ rest \<and> CHR 0x0A \<notin> set rest)"
    by blast
  have "re_fullmatch (Pattern (re_escape ''conv.1'' @ ''('' @ [CHR 0x5C] @ ''..*)?'')) ''conv.1''"
    and "re_fullmatch (Pattern (re_escape ''conv.1'' @ ''('' @ [CHR 0x5C] @ ''..*)?'')) ''conv.1.bias''"
    and "\<not> re_fullmatch (Pattern (re_escape ''conv.1'' @ ''('' @ [CHR 0x5C] @ ''..*)?'')) ''convx1''"
    and "\<not> re_fullmatch (Pattern (re_escape ''conv.1'' @ ''('' @ [CHR 0x5C] @ ''..*)?'')) ''conv.10''"
    unfolding m by simp_all
  with n r show ?thesis by (simp add: ex_report_escapes)
qed

section \<open>The input set of the compilation\<close>

lemma sample_tuple_rows:
  "list_all (\<lambda>q. shape q \<noteq> [] \<and> idx < hd (shape q)) q_inputs \<Longrightarrow>
     \<exists>rows. length rows = length q_inputs
       \<and> (\<forall>j<length q_inputs. getitem (q_inputs ! j) idx = Inr (rows ! j))
       \<and> sample_tuple q_inputs idx = Inr (map expand_dims rows)"
proof (induction q_inputs)
  case Nil
  then show ?case by simp
next
  case (Cons q rest)
  then obtain rows where rows: "length rows = length rest"
      "\<forall>j<length rest. getitem (rest ! j) idx = Inr (rows ! j)"
      "sample_tuple rest idx = Inr (map expand_dims rows)"
    by auto
  from Cons.prems obtain row where row: "getitem q idx = Inr row"
    by (cases "shape q") (auto simp: getitem_def)
  have "length (row # rows) = length (q # rest)" using rows by simp
  moreover have "\<forall>j<length (q # rest). getitem ((q # rest) ! j) idx = Inr ((row # rows) ! j)"
    using rows row by (auto simp: nth_Cons split: nat.splits)
  moreover have "sample_tuple (q # rest) idx = Inr (map expand_dims (row # rows))"
    using rows row by simp
  ultimately show ?case by blast
qed

lemma single_rows:
  "shape a = n # s \<Longrightarrow> i < n \<Longrightarrow>
     getitem a i = Inr \<lparr>dtype = dtype a, shape = s, data = row_data a i\<rparr>"
  by (simp add: getitem_def)

lemma get_inputset_generator_items:
  "(to_tuple q_inputs = [a] \<and> shape a = n # s \<longrightarrow>
      (\<exists>items. get_inputset_generator q_inputs = Inr items \<and> length items = n
         \<and> (\<forall>i<n. \<exists>row. getitem a i = Inr row \<and> items ! i = Inr (One (expand_dims row)))))
   \<and> (to_tuple q_inputs = a # b # rest \<and> shape a = n # s \<longrightarrow>
      (\<exists>items. get_inputset_generator q_inputs = Inr items \<and> length items = n
         \<and> (\<forall>i<n. list_all (\<lambda>q. shape q \<noteq> [] \<and> i < hd (shape q)) (a # b # rest) \<longrightarrow>
               (\<exists>rows. length rows = length (a # b # rest)
                  \<and> (\<forall>j<length (a # b # rest). getitem ((a # b # rest) ! j) i = Inr (rows ! j))
                  \<and> items ! i = Inr (Many (map expand_dims rows))))))"
proof (intro conjI impI)
  assume h: "to_tuple q_inputs = [a] \<and> shape a = n # s"
  let ?items = "map (\<lambda>q_input. Inr (One (expand_dims q_input)))
                  (map (\<lambda>i. \<lparr>dtype = dtype a, shape = s, data = row_data a i\<rparr>) [0..<n])"
  have g: "get_inputset_generator q_inputs = Inr ?items"
    using h by (simp add: get_inputset_generator_def iter_rows_def)
  have "\<forall>i<n. \<exists>row. getitem a i = Inr row \<and> ?items ! i = Inr (One (expand_dims row))"
    using h by (simp add: single_rows)
  with g show "\<exists>items. get_inputset_generator q_inputs = Inr items \<and> length items = n
         \<and> (\<forall>i<n. \<exists>row. getitem a i = Inr row \<and> items ! i = Inr (One (expand_dims row)))"
    by simp
next
  assume h: "to_tuple q_inputs = a # b # rest \<and> shape a = n # s"
  let ?qs = "a # b # rest"
  let ?items = "map (\<lambda>idx. case sample_tuple ?qs idx of
                                Inl e \<Rightarrow> Inl e
                              | Inr t \<Rightarrow> Inr (Many t)) [0..<n]"
  have g: "get_inputset_generator q_inputs = Inr ?items"
    using h by (simp add: get_inputset_generator_def shape0_def)
  have "\<forall>i<n. list_all (\<lambda>q. shape q \<noteq> [] \<and> i < hd (shape q)) ?qs \<longrightarrow>
               (\<exists>rows. length rows = length ?qs
                  \<and> (\<forall>j<length ?qs. getitem (?qs ! j) i = Inr (rows ! j))
                  \<and> ?items ! i = Inr (Many (map expand_dims rows)))"
  proof (intro allI impI)
    fix i assume i: "i < n" and all: "list_all (\<lambda>q. shape q \<noteq> [] \<and> i < hd (shape q)) ?qs"
    from sample_tuple_rows [OF all] obtain rows where
      "length rows = length ?qs"
      "\<forall>j<length ?qs. getitem (?qs ! j) i = Inr (rows ! j)"
      "sample_tuple ?qs i = Inr (map expand_dims rows)"
      by blast
    moreover from i have "?items ! i = (case sample_tuple ?qs i of
                                Inl e \<Rightarrow> Inl e
                              | Inr t \<Rightarrow> Inr (Many t))"
      by (simp del: sample_tuple.simps)
    ultimately show "\<exists>rows. length rows = length ?qs
                  \<and> (\<forall>j<length ?qs. getitem (?qs ! j) i = Inr (rows ! j))
                  \<and> ?items ! i = Inr (Many (map expand_dims rows))"
      by (intro exI [of _ rows]) (simp del: sample_tuple.simps)
  qed
  with g show "\<exists>items. get_inputset_generator q_inputs = Inr items \<and> length items = n
         \<and> (\<forall>i<n. list_all (\<lambda>q. shape q \<noteq> [] \<and> i < hd (shape q)) (a # b # rest) \<longrightarrow>
               (\<exists>rows. length rows = length (a # b # rest)
                  \<and> (\<forall>j<length (a # b # rest). getitem ((a # b # rest) ! j) i = Inr (rows ! j))
                  \<and> items ! i = Inr (Many (map expand_dims rows))))"
    by simp
qed

lemma quant_values_all:
  "\<forall>idx\<in>set idxs. quant (quantizers ! idx) (values ! idx) = Inr (f idx) \<Longrightarrow>
     quant_values quantizers values idxs = Inr (map f idxs)"
  by (induction idxs) auto

lemma quantize_input_all:
  assumes "length values = length (input_quantizers m)"
    and "length qs = length values"
    and "\<forall>i<length values. quant (input_quantizers m ! i) (values ! i) = Inr (qs ! i)"
    and "array_dtype qs = Inr Int64"
  shows "quantize_input array_dtype m values =
           Inr (if length qs = 1 then Single (qs ! 0) else Tuple qs)"
proof -
  from assms(3) have "\<forall>idx\<in>set [0..<length values].
      quant (input_quantizers m ! idx) (values ! idx) = Inr ((\<lambda>i. qs ! i) idx)"
    by simp
  from quant_values_all [OF this]
  have "quant_values (input_quantizers m) values [0..<length values] =
          Inr (map (\<lambda>i. qs ! i) [0..<length values])" .
  also have "map (\<lambda>i. qs ! i) [0..<length values] = qs"
    using assms(2) map_nth [of qs] by simp
  finally show ?thesis
    using assms(1,4) by (simp add: quantize_input_def assert_true_def)
qed

text \<open>
  Claim C4. When \<^verbatim>\<open>compile\<close> gets past its checks and its helpers return, the input
  set it hands to the external compiler is built from the quantized calibration inputs
  \<open>qs\<close>, the \<open>i\<close>-th made by the \<open>i\<close>-th input quantizer from the \<open>i\<close>-th input: it has
  one element per sample of the first quantized input (\<open>n\<close>, its leading dimension). For
  a single input, element \<open>i\<close> is that input's sample \<open>i\<close> with a leading dimension of
  size 1 put back. For two or more inputs, element \<open>i\<close> is the tuple of every input's
  sample \<open>i\<close>, each with the leading dimension of size 1 put back, in the order of the
  inputs; this element exists when every quantized input has a sample \<open>i\<close> (the sequence
  is lazy: an input with fewer samples makes the element raise when the consumer reaches
  it).
\<close>

theorem compile_inputset:
  assumes "inputs = to_tuple inputs0"
    and "inputs \<noteq> []"
    and "shape (hd inputs) \<noteq> []"
    and "list_all (\<lambda>a. shape0 a = shape0 (hd inputs)) inputs"
    and "list_all (\<lambda>a. \<not> is_integer (dtype a)) inputs"
    and "length inputs = length (input_quantizers m)"
    and "length qs = length inputs"
    and "\<forall>i<length inputs. quant (input_quantizers m ! i) (inputs ! i) = Inr (qs ! i)"
    and "array_dtype qs = Inr Int64"
    and "make_compiler env m = Inr k"
    and "check_there_is_no_p_error_options_in_configuration env (configuration opts) = Inr ()"
    and "manage_parameters_for_pbs_errors env (p_error opts) (global_p_error opts) = Inr pp"
    and "shape (hd qs) = n # s"
  shows "\<exists>items.
           compile dflt array_dtype env m inputs0 opts =
             (case compiler_compile env k items (opts\<lparr>p_error := fst pp, global_p_error := snd pp\<rparr>) of
                Inl e \<Rightarrow> (Inl e, m)
              | Inr c \<Rightarrow> (Inr c, m\<lparr>fhe_circuit := Some c\<rparr>))
           \<and> length items = n
           \<and> (length qs = 1 \<longrightarrow>
                (\<forall>i<n. \<exists>row. getitem (hd qs) i = Inr row \<and> items ! i = Inr (One (expand_dims row))))
           \<and> (2 \<le> length qs \<longrightarrow>
                (\<forall>i<n. list_all (\<lambda>q. shape q \<noteq> [] \<and> i < hd (shape q)) qs \<longrightarrow>
                   (\<exists>rows. length rows = length qs
                      \<and> (\<forall>j<length qs. getitem (qs ! j) i = Inr (rows ! j))
                      \<and> items ! i = Inr (Many (map expand_dims rows)))))"
proof -
  let ?q_inputs = "if length qs = 1 then Single (qs ! 0) else Tuple qs"
  let ?opts = "opts\<lparr>p_error := fst pp, global_p_error := snd pp\<rparr>"
  from assms(2,5) have "\<not> list_ex (\<lambda>a. is_integer (dtype a)) inputs"
    by (auto simp: list_ex_iff list_all_iff)
  with assms(2,3,4) have checks: "compile_checks dflt inputs = Inr ()"
    by (simp add: compile_checks_integer)
  have q: "quantize_input array_dtype m inputs = Inr ?q_inputs"
    using assms(6,7,8,9)
    by (rule quantize_input_all [of inputs m qs array_dtype])
  from assms(2,7) have qne: "qs \<noteq> []" by auto
  have tt: "to_tuple ?q_inputs = qs"
  proof (cases "length qs = 1")
    case True
    then obtain a where "qs = [a]" by (cases qs) auto
    then show ?thesis by (simp add: to_tuple_def)
  next
    case False
    then show ?thesis by (simp add: to_tuple_def)
  qed
  have steps: "\<And>items. get_inputset_generator ?q_inputs = Inr items \<Longrightarrow>
      compile dflt array_dtype env m inputs0 opts =
        (case compiler_compile env k items ?opts of
           Inl e \<Rightarrow> (Inl e, m)
         | Inr c \<Rightarrow> (Inr c, m\<lparr>fhe_circuit := Some c\<rparr>))"
    using checks q assms(1,10,11,12)
    by (simp add: compile_def compile_steps_def del: get_inputset_generator_def)
  show ?thesis
  proof (cases qs)
    case Nil
    with qne show ?thesis by simp
  next
    case (Cons a rest)
    note qs = Cons
    show ?thesis
    proof (cases rest)
      case Nil
      from get_inputset_generator_items [of ?q_inputs a n s] tt qs Nil assms(13)
      obtain items where g: "get_inputset_generator ?q_inputs = Inr items"
        and l: "length items = n"
        and e: "\<forall>i<n. \<exists>row. getitem a i = Inr row \<and> items ! i = Inr (One (expand_dims row))"
        by auto
      from steps [OF g] l e qs Nil show ?thesis by auto
    next
      case (Cons b rest')
      from get_inputset_generator_items [of ?q_inputs a n s b rest'] tt qs Cons assms(13)
      obtain items where g: "get_inputset_generator ?q_inputs = Inr items"
        and l: "length items = n"
        and e: "\<forall>i<n. list_all (\<lambda>q. shape q \<noteq> [] \<and> i < hd (shape q)) (a # b # rest') \<longrightarrow>
               (\<exists>rows. length rows = length (a # b # rest')
                  \<and> (\<forall>j<length (a # b # rest'). getitem ((a # b # rest') ! j) i = Inr (rows ! j))
                  \<and> items ! i = Inr (Many (map expand_dims rows)))"
        by auto
      from steps [OF g] l e qs Cons show ?thesis by auto
    qed
  qed
qed

theorem compile_inputset_witness:
  "compile default_error_type ex_array_dtype ex_probe_env ex_module (Single ex_float_array) ex_options =
     (Inr ex_circuit, ex_module\<lparr>fhe_circuit := Some ex_circuit\<rparr>)
   \<and> (\<exists>items. length items = 3
         \<and> items ! 1 = Inr (One \<lparr>dtype = Int64, shape = [1], data = [2::int]\<rparr>)
         \<and> compiler_compile ex_probe_env () items ex_options = Inr ex_circuit)
   \<and> compile default_error_type ex_array_dtype ex_probe_env ex_module2
        (Tuple [ex_short_array, ex_second_array]) ex_options =
     (Inr ex_circuit, ex_module2\<lparr>fhe_circuit := Some ex_circuit\<rparr>)"
proof -
  let ?q = "\<lparr>dtype = Int64, shape = [3], data = [1, 2, 3::int]\<rparr>"
  have q1: "\<forall>i<length [ex_float_array].
              quant (input_quantizers ex_module ! i) ([ex_float_array] ! i) = Inr ([?q] ! i)"
    by (simp add: ex_module_def ex_quantizer_def ex_float_array_def)
  from compile_inputset
         [of "[ex_float_array]" "Single ex_float_array" ex_module "[?q]" ex_array_dtype
             ex_probe_env "()" ex_options "(None, None)" 3 "[]" default_error_type]
       q1
  obtain items where
    c: "compile default_error_type ex_array_dtype ex_probe_env ex_module (Single ex_float_array) ex_options =
          (case compiler_compile ex_probe_env () items ex_options of
             Inl e \<Rightarrow> (Inl e, ex_module)
           | Inr c \<Rightarrow> (Inr c, ex_module\<lparr>fhe_circuit := Some c\<rparr>))"
    and l: "length items = 3"
    and e: "\<forall>i<3. \<exists>row. getitem ?q i = Inr row \<and> items ! i = Inr (One (expand_dims row))"
    by (auto simp: to_tuple_def ex_float_array_def shape0_def ex_module_def ex_array_dtype_def
        ex_probe_env_def ex_options_def)
  have a: "compile default_error_type ex_array_dtype ex_probe_env ex_module (Single ex_float_array) ex_options =
     (Inr ex_circuit, ex_module\<lparr>fhe_circuit := Some ex_circuit\<rparr>)"
    by (simp add: compile_def compile_checks_def compile_steps_def to_tuple_def shape0_def
          assert_true_def ex_float_array_def ex_probe_env_def quantize_input_def ex_module_def
          ex_quantizer_def ex_array_dtype_def get_inputset_generator_def iter_rows_def
          expand_dims_def row_data_def ex_inputset_single_def upt_rec)
  from e [rule_format, of 1] have i1: "items ! 1 = Inr (One \<lparr>dtype = Int64, shape = [1], data = [2::int]\<rparr>)"
    by (auto simp: getitem_def expand_dims_def row_data_def)
  from c have "(Inr ex_circuit, ex_module\<lparr>fhe_circuit := Some ex_circuit\<rparr>) =
          (case compiler_compile ex_probe_env () items ex_options of
             Inl e \<Rightarrow> (Inl e, ex_module)
           | Inr c \<Rightarrow> (Inr c, ex_module\<lparr>fhe_circuit := Some c\<rparr>))"
    unfolding a .
  then have cc: "compiler_compile ex_probe_env () items ex_options = Inr ex_circuit"
    by (cases "compiler_compile ex_probe_env () items ex_options") simp_all
  have b: "compile default_error_type ex_array_dtype ex_probe_env ex_module2
        (Tuple [ex_short_array, ex_second_array]) ex_options =
     (Inr ex_circuit, ex_module2\<lparr>fhe_circuit := Some ex_circuit\<rparr>)"
    by (simp add: compile_def compile_checks_def compile_steps_def to_tuple_def shape0_def
          assert_true_def ex_short_array_def ex_second_array_def ex_probe_env_def
          quantize_input_def ex_module2_def ex_quantizer_def ex_array_dtype_def
          get_inputset_generator_def getitem_def expand_dims_def row_data_def
          ex_inputset_pairs_def upt_rec)
  from a b l i1 cc show ?thesis by blast
qed

section \<open>Aggregation of the QAT faults\<close>

lemma run_layers_collects:
  "run_layers h layer_results bad finished items = (Inr (layer_results', bad'), items', h') \<Longrightarrow>
     bad' = bad @ concat (node_faults h layer_results items)
     \<and> length (node_faults h layer_results items) = length items"
proof (induction items arbitrary: h layer_results bad finished)
  case Nil
  then show ?case by simp
next
  case (Cons item rest)
  obtain output_name input_names layer where item: "item = (output_name, input_names, layer)"
    by (cases item) auto
  obtain res layer1 h1 where rl: "run_layer h layer_results input_names layer = (res, layer1, h1)"
    by (cases "run_layer h layer_results input_names layer") auto
  show ?case
  proof (cases res)
    case (Inl e)
    with Cons.prems item rl show ?thesis by simp
  next
    case (Inr op)
    obtain out pairs where op: "op = (out, pairs)" by (cases op) auto
    from Cons.prems item rl Inr op have
      "run_layers h1 (layer_results(output_name \<mapsto> out)) (bad @ pairs)
         (finished @ [(output_name, input_names, layer1)]) rest = (Inr (layer_results', bad'), items', h')"
      by simp
    from Cons.IH [OF this] have
      "bad' = (bad @ pairs) @ concat (node_faults h1 (layer_results(output_name \<mapsto> out)) rest)"
      and "length (node_faults h1 (layer_results(output_name \<mapsto> out)) rest) = length rest"
      by blast+
    moreover have "node_faults h layer_results (item # rest) =
        pairs # node_faults h1 (layer_results(output_name \<mapsto> out)) rest"
      unfolding item using rl Inr op by simp
    ultimately show ?thesis by simp
  qed
qed

lemma fault_pairs_Inr:
  "fault_pairs input_names ty errs = Inr pairs \<Longrightarrow>
     length pairs = length errs
     \<and> (\<forall>k<length errs. py_index input_names (errs ! k) = Inr (fst (pairs ! k)) \<and> snd (pairs ! k) = ty)"
proof (induction errs arbitrary: pairs)
  case Nil
  then show ?case by simp
next
  case (Cons input_idx rest)
  from Cons.prems obtain name ps where
    n: "py_index input_names input_idx = Inr name"
    and r: "fault_pairs input_names ty rest = Inr ps"
    and e: "pairs = (name, ty) # ps"
    by (auto split: sum.splits)
  from Cons.IH [OF r] show ?case
    using n e by (auto simp: nth_Cons split: nat.splits)
qed

lemma sublist_join: "x \<in> set xs \<Longrightarrow> sublist x (join sep xs)"
proof (induction sep xs rule: join.induct)
  case (1 sep)
  then show ?case by simp
next
  case (2 sep y)
  then show ?case by simp
next
  case (3 sep y z zs)
  show ?case
  proof (cases "x = y")
    case True
    then show ?thesis by (simp add: sublist_append_rightI)
  next
    case False
    with 3 have "sublist x (join sep (z # zs))" by simp
    then have "sublist x ((y @ sep) @ join sep (z # zs))"
      by (simp only: sublist_append) blast
    then show ?thesis by simp
  qed
qed















section \<open>The integer check of \<^verbatim>\<open>forward\<close>\<close>

lemma invalid_inputs_member:
  "i < length qvalues \<Longrightarrow> \<not> is_integer (dtype (qvalues ! i)) \<Longrightarrow>
     (i, qvalues ! i) \<in> set (invalid_inputs qvalues)"
  by (simp add: invalid_inputs_def in_set_enumerate_eq)

lemma invalid_inputs_empty:
  "invalid_inputs qvalues = [] \<longleftrightarrow> list_all (\<lambda>q. is_integer (dtype q)) qvalues"
proof
  assume e: "invalid_inputs qvalues = []"
  show "list_all (\<lambda>q. is_integer (dtype q)) qvalues"
    unfolding list_all_length
  proof (intro allI impI)
    fix i assume "i < length qvalues"
    with invalid_inputs_member [of i qvalues] e show "is_integer (dtype (qvalues ! i))"
      by auto
  qed
next
  assume "list_all (\<lambda>q. is_integer (dtype q)) qvalues"
  then show "invalid_inputs qvalues = []"
    by (auto simp: invalid_inputs_def filter_empty_conv in_set_enumerate_eq list_all_length)
qed

lemma not_integer_msg_names:
  assumes "val \<in> set invalid"
  shows "sublist (invalid_item val) (not_integer_msg invalid)"
proof -
  from assms have "sublist (invalid_item val) (join '', '' (map invalid_item invalid))"
    by (intro sublist_join) simp
  then show ?thesis
    unfolding not_integer_msg_def by (simp only: sublist_append) blast
qed

text \<open>
  Claim C2, amended. The check at the head of \<^verbatim>\<open>forward\<close> passes exactly when every
  input array is of an integer type, whatever the number of inputs. When some input is
  not, \<^verbatim>\<open>forward\<close> raises a ValueError before anything else runs (the module and
  the store are as before), and the message lists, between ``Inputs: '' and `` are not
  integer types. ...'', every offending position with its element type, as
  \<^verbatim>\<open>#i (dtype)\<close>. When every input is of an integer type, the call is the call of
  \<^verbatim>\<open>_forward\<close>, which can still fail for another reason.
\<close>

theorem forward_dtype_check:
  "(check_inputs qvalues = Inr () \<longleftrightarrow> list_all (\<lambda>q. is_integer (dtype q)) qvalues)
   \<and> (\<not> list_all (\<lambda>q. is_integer (dtype q)) qvalues \<longrightarrow>
        forward dflt m qvalues debug h =
          (Inl (Exn ValueError (not_integer_msg (invalid_inputs qvalues))), m, h)
        \<and> not_integer_msg (invalid_inputs qvalues) =
            ''Inputs: '' @ join '', '' (map invalid_item (invalid_inputs qvalues))
            @ '' are not integer types. Make sure you quantize your input before calling forward.''
        \<and> (\<forall>i<length qvalues. \<not> is_integer (dtype (qvalues ! i)) \<longrightarrow>
              sublist (''#'' @ str_nat i @ '' ('' @ dtype_name (dtype (qvalues ! i)) @ '')'')
                (not_integer_msg (invalid_inputs qvalues))))
   \<and> (list_all (\<lambda>q. is_integer (dtype q)) qvalues \<longrightarrow>
        forward dflt m qvalues False h =
          (case underscore_forward dflt m qvalues h of
             (Inl e, m2, h2) \<Rightarrow> (Inl e, m2, h2)
           | (Inr result, m2, h2) \<Rightarrow> (Inr (Plain result), m2, h2)))"
proof -
  have a: "check_inputs qvalues = Inr () \<longleftrightarrow> list_all (\<lambda>q. is_integer (dtype q)) qvalues"
    by (simp add: check_inputs_def assert_true_def invalid_inputs_empty)
  have b: "\<not> list_all (\<lambda>q. is_integer (dtype q)) qvalues \<longrightarrow>
        forward dflt m qvalues debug h =
          (Inl (Exn ValueError (not_integer_msg (invalid_inputs qvalues))), m, h)"
    by (simp add: forward_def check_inputs_def assert_true_def invalid_inputs_empty)
  have c: "not_integer_msg (invalid_inputs qvalues) =
            ''Inputs: '' @ join '', '' (map invalid_item (invalid_inputs qvalues))
            @ '' are not integer types. Make sure you quantize your input before calling forward.''"
    by (simp add: not_integer_msg_def)
  have d: "\<forall>i<length qvalues. \<not> is_integer (dtype (qvalues ! i)) \<longrightarrow>
              sublist (''#'' @ str_nat i @ '' ('' @ dtype_name (dtype (qvalues ! i)) @ '')'')
                (not_integer_msg (invalid_inputs qvalues))"
  proof (intro allI impI)
    fix i assume "i < length qvalues" "\<not> is_integer (dtype (qvalues ! i))"
    from not_integer_msg_names [OF invalid_inputs_member [OF this]]
    show "sublist (''#'' @ str_nat i @ '' ('' @ dtype_name (dtype (qvalues ! i)) @ '')'')
                (not_integer_msg (invalid_inputs qvalues))"
      by (simp add: invalid_item_def)
  qed
  have e: "list_all (\<lambda>q. is_integer (dtype q)) qvalues \<longrightarrow>
        forward dflt m qvalues False h =
          (case underscore_forward dflt m qvalues h of
             (Inl e, m2, h2) \<Rightarrow> (Inl e, m2, h2)
           | (Inr result, m2, h2) \<Rightarrow> (Inr (Plain result), m2, h2))"
  proof
    assume "list_all (\<lambda>q. is_integer (dtype q)) qvalues"
    with a have "check_inputs qvalues = Inr ()" by simp
    then show "forward dflt m qvalues False h =
          (case underscore_forward dflt m qvalues h of
             (Inl e, m2, h2) \<Rightarrow> (Inl e, m2, h2)
           | (Inr result, m2, h2) \<Rightarrow> (Inr (Plain result), m2, h2))"
      by (simp add: forward_def)
  qed
  from a b c d e show ?thesis by blast
qed

theorem forward_dtype_check_witness:
  "forward AssertionError ex_module2 [ex_float_array, ex_int_array] False [] =
     (Inl (Exn ValueError
        ''Inputs: #0 (float64) are not integer types. Make sure you quantize your input before calling forward.''),
      ex_module2, [])
   \<and> sublist ''#0 (float64)''
        ''Inputs: #0 (float64) are not integer types. Make sure you quantize your input before calling forward.''
   \<and> forward AssertionError ex_module [ex_int_array] False [] = (Inr (Plain ex_int_array), ex_module, [])"
proof -
  have i: "invalid_inputs [ex_float_array, ex_int_array] = [(0, ex_float_array)]"
    by (simp add: invalid_inputs_def enumerate_eq_zip ex_float_array_def ex_int_array_def upt_rec)
  have msg: "not_integer_msg [(0, ex_float_array)] =
      ''Inputs: #0 (float64) are not integer types. Make sure you quantize your input before calling forward.''"
    by (simp add: not_integer_msg_def invalid_item_def str_nat.simps digit_char_def ex_float_array_def)
  have f: "underscore_forward AssertionError ex_module [ex_int_array] [] = (Inr ex_int_array, ex_module, [])"
    by (simp add: underscore_forward_def assert_true_def input_results_def dict_of_def
          ex_module_def ex_identity_op_def run_layer_def call_layer_def get_or_none_def
          graph_output_def make_quantized_array_def)
  have nl: "\<not> list_all (\<lambda>q. is_integer (dtype q)) [ex_float_array, ex_int_array]"
    by (simp add: ex_float_array_def)
  from forward_dtype_check [of "[ex_float_array, ex_int_array]" AssertionError ex_module2 False "[]"] nl
  have f1: "forward AssertionError ex_module2 [ex_float_array, ex_int_array] False [] =
          (Inl (Exn ValueError (not_integer_msg (invalid_inputs [ex_float_array, ex_int_array]))),
           ex_module2, [])"
    and f2: "\<forall>i<length [ex_float_array, ex_int_array].
              \<not> is_integer (dtype ([ex_float_array, ex_int_array] ! i)) \<longrightarrow>
              sublist (''#'' @ str_nat i @ '' ('' @ dtype_name (dtype ([ex_float_array, ex_int_array] ! i)) @ '')'')
                (not_integer_msg (invalid_inputs [ex_float_array, ex_int_array]))"
    by blast+
  from f2 [rule_format, of 0]
  have "sublist ''#0 (float64)''
        ''Inputs: #0 (float64) are not integer types. Make sure you quantize your input before calling forward.''"
    unfolding i msg by (simp add: ex_float_array_def str_nat.simps digit_char_def)
  with f1 have a: "forward AssertionError ex_module2 [ex_float_array, ex_int_array] False [] =
     (Inl (Exn ValueError
        ''Inputs: #0 (float64) are not integer types. Make sure you quantize your input before calling forward.''),
      ex_module2, [])
   \<and> sublist ''#0 (float64)''
        ''Inputs: #0 (float64) are not integer types. Make sure you quantize your input before calling forward.''"
    unfolding i msg by simp
  from forward_dtype_check [of "[ex_int_array]" AssertionError ex_module False "[]"]
  have b: "forward AssertionError ex_module [ex_int_array] False [] = (Inr (Plain ex_int_array), ex_module, [])"
    unfolding f by (simp add: ex_int_array_def)
  from a b show ?thesis by blast
qed

text \<open>
  The claim as stated (the call fails if and only if some input is not of an integer
  type) does not hold: here the number of inputs is the declared one and the only input
  is an int64 array, and the call fails with the aggregated QAT error.
\<close>

theorem forward_fails_on_integer_inputs:
  "length [ex_int_array] = length (input_quantizers ex_module_two_faults)
   \<and> is_integer (dtype ex_int_array)
   \<and> forward AssertionError ex_module_two_faults [ex_int_array] False [] =
       (Inl (raise_qat_import_error [(''x'', ''Gemm''), (''t'', ''Gemm'')]), ex_module_two_faults, [])"
  by (simp add: forward_def check_inputs_def assert_true_def invalid_inputs_def enumerate_eq_zip
        ex_int_array_def underscore_forward_def input_results_def dict_of_def
        ex_module_two_faults_def ex_faulty_op_def run_layer_def call_layer_def get_or_none_def
        py_index_def)

section \<open>The debug trace of \<^verbatim>\<open>forward\<close>\<close>

lemma run_layer_debug_slot:
  "run_layer h layer_results input_names layer = (res, layer', h') \<Longrightarrow>
     debug_value_tracker layer' = debug_value_tracker layer"
  by (auto simp: run_layer_def Let_def split: sum.splits)

lemma run_layers_debug_slots:
  "run_layers h layer_results bad finished items = (res, items', h') \<Longrightarrow>
     map (\<lambda>item. debug_value_tracker (snd (snd item))) items' =
     map (\<lambda>item. debug_value_tracker (snd (snd item))) (finished @ items)"
proof (induction items arbitrary: h layer_results bad finished)
  case Nil
  then show ?case by simp
next
  case (Cons item rest)
  obtain output_name input_names layer where item: "item = (output_name, input_names, layer)"
    by (cases item) auto
  obtain r layer1 h1 where rl: "run_layer h layer_results input_names layer = (r, layer1, h1)"
    by (cases "run_layer h layer_results input_names layer") auto
  note slot = run_layer_debug_slot [OF rl]
  show ?case
  proof (cases r)
    case (Inl e)
    with Cons.prems item rl slot show ?thesis by auto
  next
    case (Inr op)
    obtain out pairs where op: "op = (out, pairs)" by (cases op) auto
    from Cons.prems item rl Inr op have
      "run_layers h1 (layer_results(output_name \<mapsto> out)) (bad @ pairs)
         (finished @ [(output_name, input_names, layer1)]) rest = (res, items', h')"
      by simp
    from Cons.IH [OF this] show ?thesis
      using item slot by simp
  qed
qed

lemma underscore_forward_debug_slots:
  "underscore_forward dflt m qvalues h = (res, m', h') \<Longrightarrow> debug_slots m' = debug_slots m"
proof -
  assume a: "underscore_forward dflt m qvalues h = (res, m', h')"
  show ?thesis
  proof (cases "length qvalues = length (input_quantizers m)")
    case False
    with a show ?thesis by (auto simp: underscore_forward_def assert_true_def Let_def)
  next
    case True
    obtain r items hh where rl:
      "run_layers h (input_results m qvalues) [] [] (quant_layers_dict m) = (r, items, hh)"
      by (cases "run_layers h (input_results m qvalues) [] [] (quant_layers_dict m)") auto
    from a True rl have "quant_layers_dict m' = items"
      by (auto simp: underscore_forward_def assert_true_def Let_def split: sum.splits if_splits)
    with run_layers_debug_slots [OF rl] show ?thesis by (simp add: debug_slots_def)
  qed
qed

lemma debug_slots_set:
  "debug_slots (set_debug_value_tracker v m) = replicate (length (quant_layers_dict m)) v"
  by (simp add: debug_slots_def set_debug_value_tracker_def map_replicate_const comp_def)

lemma forward_without_debug_keeps_slots:
  "forward dflt m qvalues False h = (res, m', h') \<Longrightarrow> debug_slots m' = debug_slots m"
  by (auto simp: forward_def split: sum.splits prod.splits dest: underscore_forward_debug_slots)

lemma forward_debug_cleared_on_return:
  assumes "forward dflt m qvalues True h = (Inr r, m', h')"
  shows "debug_slots m' = replicate (length (quant_layers_dict m)) None"
proof -
  from assms obtain result m2 where
    u: "underscore_forward dflt (set_debug_value_tracker (Some (length h)) m) qvalues (h @ [[]]) =
          (Inr result, m2, h')"
    and m': "m' = set_debug_value_tracker None m2"
    by (auto simp: forward_def Let_def split: sum.splits prod.splits)
  from underscore_forward_debug_slots [OF u]
  have "debug_slots m2 = replicate (length (quant_layers_dict m)) (Some (length h))"
    by (simp add: debug_slots_set)
  then have "length (debug_slots m2) = length (quant_layers_dict m)" by simp
  then have "length (quant_layers_dict m2) = length (quant_layers_dict m)"
    by (simp add: debug_slots_def)
  with m' show ?thesis by (simp add: debug_slots_set)
qed

lemma forward_debug_left_installed_on_error:
  assumes "forward dflt m qvalues True h = (Inl e, m', h')" and "check_inputs qvalues = Inr ()"
  shows "debug_slots m' = replicate (length (quant_layers_dict m)) (Some (length h))"
proof -
  from assms obtain
    u: "underscore_forward dflt (set_debug_value_tracker (Some (length h)) m) qvalues (h @ [[]]) =
          (Inl e, m', h')"
    by (auto simp: forward_def Let_def split: sum.splits prod.splits)
  from underscore_forward_debug_slots [OF u] show ?thesis by (simp add: debug_slots_set)
qed

text \<open>
  Claim C9, at a failing input. \<^verbatim>\<open>forward\<close> with \<^verbatim>\<open>debug=True\<close> installs the
  new trace on every operation, calls \<^verbatim>\<open>_forward\<close>, and only then clears the trace
  from the operations; when \<^verbatim>\<open>_forward\<close> raises, the clearing loop is not reached.
  On the module below (an identity operation that records its input in the installed
  trace, then an operation that reports a QAT fault) the call with debug capture raises
  the QAT error and leaves the trace at address 0 installed on both operations. A second
  call, without debug capture and on another input, then runs with that trace still
  installed: it overwrites the entry the first call recorded.
\<close>

theorem forward_debug_trace_left_installed:
  "forward AssertionError ex_module_trace [ex_int_array] True [] =
     (Inl (raise_qat_import_error [(''t'', ''Gemm'')]),
      set_debug_value_tracker (Some 0) ex_module_trace,
      [[(''id_0'', [(Inl 0, QArray (make_quantized_array ex_quantizer ex_int_array))])]])
   \<and> debug_slots (set_debug_value_tracker (Some 0) ex_module_trace) = [Some 0, Some 0]
   \<and> forward AssertionError (set_debug_value_tracker (Some 0) ex_module_trace) [ex_other_array] False
       [[(''id_0'', [(Inl 0, QArray (make_quantized_array ex_quantizer ex_int_array))])]] =
     (Inl (raise_qat_import_error [(''t'', ''Gemm'')]),
      set_debug_value_tracker (Some 0) ex_module_trace,
      [[(''id_0'', [(Inl 0, QArray (make_quantized_array ex_quantizer ex_other_array))])]])"
  by (simp add: forward_def check_inputs_def assert_true_def invalid_inputs_def enumerate_eq_zip
        ex_int_array_def ex_other_array_def underscore_forward_def input_results_def dict_of_def
        ex_module_trace_def ex_tracing_op_def ex_faulty_op_def run_layer_def call_layer_def
        get_or_none_def py_index_def set_debug_value_tracker_def debug_slots_def)

section \<open>Batches through the compiled circuit\<close>

lemma sample_slices_rows:
  "list_all (\<lambda>q. shape q \<noteq> [] \<and> i < hd (shape q)) qvalues \<Longrightarrow>
     sample_slices qvalues i =
       Inr (map (\<lambda>q. \<lparr>dtype = dtype q, shape = 1 # tl (shape q), data = row_data q i\<rparr>) qvalues)"
proof (induction qvalues)
  case Nil
  then show ?case by simp
next
  case (Cons q rest)
  from Cons.prems have "getitem_list q i = Inr \<lparr>dtype = dtype q, shape = 1 # tl (shape q), data = row_data q i\<rparr>"
    by (cases "shape q") (auto simp: getitem_list_def)
  with Cons show ?case by simp
qed

lemma fhe_loop_results:
  "\<forall>j<length idxs. \<exists>q_value. sample_slices qvalues (idxs ! j) = Inr q_value
        \<and> backend_call c simulate_mode q_value = Inr (f (idxs ! j)) \<Longrightarrow>
     fhe_loop c simulate_mode qvalues idxs acc = Inr (acc @ map f idxs)"
proof (induction idxs arbitrary: acc)
  case Nil
  then show ?case by simp
next
  case (Cons i rest)
  from Cons.prems [rule_format, of 0] obtain q_value where
    s: "sample_slices qvalues i = Inr q_value"
    and b: "backend_call c simulate_mode q_value = Inr (f i)"
    by auto
  have "\<forall>j<length rest. \<exists>q_value. sample_slices qvalues (rest ! j) = Inr q_value
        \<and> backend_call c simulate_mode q_value = Inr (f (rest ! j))"
  proof (intro allI impI)
    fix j assume "j < length rest"
    with Cons.prems [rule_format, of "Suc j"]
    show "\<exists>q_value. sample_slices qvalues (rest ! j) = Inr q_value
        \<and> backend_call c simulate_mode q_value = Inr (f (rest ! j))"
      by simp
  qed
  from Cons.IH [OF this, of "acc @ [f i]"] s b show ?case by simp
qed

lemma concat_block:
  "\<forall>x\<in>set xss. length x = k \<Longrightarrow> i < length xss \<Longrightarrow> take k (drop (i * k) (concat xss)) = xss ! i"
proof (induction xss arbitrary: i)
  case Nil
  then show ?case by simp
next
  case (Cons x xss)
  show ?case
  proof (cases i)
    case 0
    with Cons.prems show ?thesis by simp
  next
    case (Suc j)
    with Cons.prems have "take k (drop (j * k) (concat xss)) = xss ! j"
      by (intro Cons.IH) auto
    with Suc Cons.prems show ?thesis by simp
  qed
qed

lemma sum_list_ones: "\<forall>x\<in>set xs. f x = (1::nat) \<Longrightarrow> sum_list (map f xs) = length xs"
  by (induction xs) auto

lemma concatenate_rows:
  assumes "outs \<noteq> []"
    and "\<forall>b\<in>set outs. shape b = 1 # so \<and> length (data b) = prod_list so"
  shows "\<exists>r. concatenate result_type outs = Inr r \<and> shape r = length outs # so
           \<and> dtype r = result_type (map dtype outs)
           \<and> (\<forall>i<length outs. row_data r i = data (outs ! i))"
proof -
  from assms(1) obtain a rest where ar: "outs = a # rest" by (cases outs) auto
  let ?r = "\<lparr>dtype = result_type (map dtype outs),
             shape = sum_list (map (\<lambda>b. hd (shape b)) outs) # tl (shape a),
             data = concat (map data outs)\<rparr>"
  from assms(2) have n0: "\<not> list_ex (\<lambda>b. shape b = []) outs"
    by (auto simp: list_ex_iff)
  from assms(2) ar have n1: "\<not> list_ex (\<lambda>b. tl (shape b) \<noteq> tl (shape a)) outs"
    by (auto simp: list_ex_iff)
  from n0 n1 ar have c: "concatenate result_type outs = Inr ?r"
    by (simp add: concatenate_def)
  from assms(2) have "sum_list (map (\<lambda>b. hd (shape b)) outs) = length outs"
    by (intro sum_list_ones) auto
  moreover from assms(2) ar have "tl (shape a) = so" by auto
  ultimately have sh: "shape ?r = length outs # so" by simp
  have "\<forall>i<length outs. row_data ?r i = data (outs ! i)"
  proof (intro allI impI)
    fix i assume i: "i < length outs"
    from assms(2) have "\<forall>x\<in>set (map data outs). length x = prod_list so" by auto
    from concat_block [OF this, of i] i
    show "row_data ?r i = data (outs ! i)"
      using sh by (simp add: row_data_def mult.commute)
  qed
  with c sh show ?thesis by (intro exI [of _ ?r]) simp
qed

text \<open>
  Claim C3, amended. Take a compiled module and a batch whose first input has
  \<open>n > 0\<close> samples and whose other inputs have at least as many, such that for every
  \<open>i < n\<close> the backend call the flag selects (\<^verbatim>\<open>simulate\<close> of the circuit when the
  flag is set, \<^verbatim>\<open>encrypt_run_decrypt\<close> of the circuit when it is not), on the slices
  \<^verbatim>\<open>[i]\<close> of all inputs in their order, returns a result \<open>outs ! i\<close> of one row, of the
  same row shape \<open>so\<close> for all samples. Then \<^verbatim>\<open>forward_in_fhe\<close> returns an array
  with \<open>n\<close> rows, whose row \<open>i\<close> is the row the backend returned for sample \<open>i\<close>:
  the results are in the order of the input samples. The flag enters only through the
  choice between the two calls.
\<close>

theorem forward_in_fhe_batch_order:
  assumes "fhe_circuit m = Some c"
    and "qvalues = first # rest"
    and "shape first = n # s"
    and "0 < n"
    and "list_all (\<lambda>q. shape q \<noteq> [] \<and> n \<le> hd (shape q)) qvalues"
    and "length outs = n"
    and "\<forall>i<n. (if simulate_mode then simulate c else encrypt_run_decrypt c)
                   (map (\<lambda>q. \<lparr>dtype = dtype q, shape = 1 # tl (shape q), data = row_data q i\<rparr>)
                      qvalues) = Inr (outs ! i)"
    and "\<forall>i<n. shape (outs ! i) = 1 # so \<and> length (data (outs ! i)) = prod_list so"
  shows "\<exists>r. forward_in_fhe dflt result_type m qvalues simulate_mode = Inr r
           \<and> shape r = n # so
           \<and> (\<forall>i<n. getitem r i =
                  Inr \<lparr>dtype = result_type (map dtype outs), shape = so, data = data (outs ! i)\<rparr>)"
proof -
  have calls: "\<forall>i<n. \<exists>q_value. sample_slices qvalues i = Inr q_value
                 \<and> backend_call c simulate_mode q_value = Inr (outs ! i)"
  proof (intro allI impI)
    fix i assume i: "i < n"
    with assms(5) have "list_all (\<lambda>q. shape q \<noteq> [] \<and> i < hd (shape q)) qvalues"
      by (auto simp: list_all_iff)
    from sample_slices_rows [OF this] assms(7) i
    show "\<exists>q_value. sample_slices qvalues i = Inr q_value
            \<and> backend_call c simulate_mode q_value = Inr (outs ! i)"
      by (auto simp: backend_call_def)
  qed
  have "\<forall>j<length [0..<n]. \<exists>q_value. sample_slices qvalues ([0..<n] ! j) = Inr q_value
          \<and> backend_call c simulate_mode q_value = Inr ((\<lambda>i. outs ! i) ([0..<n] ! j))"
    using calls by simp
  from fhe_loop_results [OF this, of "[]"]
  have "fhe_loop c simulate_mode qvalues [0..<n] [] = Inr (map (\<lambda>i. outs ! i) [0..<n])"
    by simp
  also have "map (\<lambda>i. outs ! i) [0..<n] = outs"
    using assms(6) map_nth [of outs] by simp
  finally have loop: "fhe_loop c simulate_mode qvalues [0..<n] [] = Inr outs" .
  from assms(4,6) have ne: "outs \<noteq> []" by auto
  from assms(6,8) have all: "\<forall>b\<in>set outs. shape b = 1 # so \<and> length (data b) = prod_list so"
    by (auto simp: in_set_conv_nth)
  from concatenate_rows [OF ne all, of result_type] obtain r where
    r: "concatenate result_type outs = Inr r" "shape r = length outs # so"
       "dtype r = result_type (map dtype outs)"
       "\<forall>i<length outs. row_data r i = data (outs ! i)"
    by blast
  have f: "forward_in_fhe dflt result_type m qvalues simulate_mode = Inr r"
    using assms(1,2,3) loop r(1)
    by (simp add: forward_in_fhe_def assert_true_def shape0_def)
  have "\<forall>i<n. getitem r i =
          Inr \<lparr>dtype = result_type (map dtype outs), shape = so, data = data (outs ! i)\<rparr>"
    using r assms(6) by (simp add: getitem_def)
  with f r(2) assms(6) show ?thesis by auto
qed

text \<open>
  The claim as stated (for every batch) does not hold for the empty batch: with no
  sample there is no result to concatenate, and \<^verbatim>\<open>numpy.concatenate\<close> of the empty
  list raises ValueError in both modes, where the claim has a result of zero rows.
\<close>

theorem forward_in_fhe_empty_batch:
  "fhe_circuit ex_compiled_module = Some ex_circuit
   \<and> shape0 ex_empty_batch = Inr 0
   \<and> forward_in_fhe AssertionError ex_result_type ex_compiled_module [ex_empty_batch] True =
       Inl (Lib ValueError)
   \<and> forward_in_fhe AssertionError ex_result_type ex_compiled_module [ex_empty_batch] False =
       Inl (Lib ValueError)"
  by (simp add: forward_in_fhe_def assert_true_def shape0_def ex_compiled_module_def
        ex_empty_batch_def concatenate_def)

lemma ex_batch_simulated:
  "\<forall>i<2. (if True then simulate ex_two_mode_circuit else encrypt_run_decrypt ex_two_mode_circuit)
            (map (\<lambda>q. \<lparr>dtype = dtype q, shape = 1 # tl (shape q), data = row_data q i\<rparr>) [ex_batch])
          = Inr ([\<lparr>dtype = Int64, shape = [1, 2], data = [1, 2]\<rparr>,
                  \<lparr>dtype = Int64, shape = [1, 2], data = [3, 4]\<rparr>] ! i)"
  by (auto simp: less_Suc_eq numeral_2_eq_2 row_data_def ex_batch_def ex_two_mode_circuit_def)

lemma ex_batch_encrypted:
  "\<forall>i<2. (if False then simulate ex_two_mode_circuit else encrypt_run_decrypt ex_two_mode_circuit)
            (map (\<lambda>q. \<lparr>dtype = dtype q, shape = 1 # tl (shape q), data = row_data q i\<rparr>) [ex_batch])
          = Inr ([\<lparr>dtype = Int64, shape = [1, 2], data = [11, 12]\<rparr>,
                  \<lparr>dtype = Int64, shape = [1, 2], data = [13, 14]\<rparr>] ! i)"
  by (auto simp: less_Suc_eq numeral_2_eq_2 row_data_def ex_batch_def ex_two_mode_circuit_def)

lemma ex_batch_rows:
  "\<forall>i<2. shape ([\<lparr>dtype = Int64, shape = [1, 2], data = [a, b]\<rparr>,
                  \<lparr>dtype = Int64, shape = [1, 2], data = [c, d::int]\<rparr>] ! i) = 1 # [2]
      \<and> length (data ([\<lparr>dtype = Int64, shape = [1, 2], data = [a, b]\<rparr>,
                        \<lparr>dtype = Int64, shape = [1, 2], data = [c, d::int]\<rparr>] ! i)) = prod_list [2]"
  by (auto simp: less_Suc_eq numeral_2_eq_2)

theorem forward_in_fhe_batch_order_witness:
  "(\<exists>r. forward_in_fhe default_error_type ex_result_type ex_two_mode_module [ex_batch] True = Inr r
       \<and> shape r = [2, 2]
       \<and> getitem r 0 = Inr \<lparr>dtype = Int64, shape = [2], data = [1, 2]\<rparr>
       \<and> getitem r 1 = Inr \<lparr>dtype = Int64, shape = [2], data = [3, 4]\<rparr>)
   \<and> (\<exists>r. forward_in_fhe default_error_type ex_result_type ex_two_mode_module [ex_batch] False = Inr r
       \<and> shape r = [2, 2]
       \<and> getitem r 0 = Inr \<lparr>dtype = Int64, shape = [2], data = [11, 12]\<rparr>
       \<and> getitem r 1 = Inr \<lparr>dtype = Int64, shape = [2], data = [13, 14]\<rparr>)"
proof -
  have c: "fhe_circuit ex_two_mode_module = Some ex_two_mode_circuit"
    by (simp add: ex_two_mode_module_def)
  have sh: "shape ex_batch = 2 # [2]" by (simp add: ex_batch_def)
  have en: "list_all (\<lambda>q. shape q \<noteq> [] \<and> 2 \<le> hd (shape q)) [ex_batch]"
    by (simp add: ex_batch_def)
  have l: "\<And>x y. length [x, y :: int ndarray] = 2" by simp
  have t: "\<And>a b c d. ex_result_type (map dtype [\<lparr>dtype = Int64, shape = [1, 2], data = [a, b]\<rparr>,
                   \<lparr>dtype = Int64, shape = [1, 2], data = [c, d::int]\<rparr>]) = Int64"
    by (simp add: ex_result_type_def)
  from forward_in_fhe_batch_order
         [where simulate_mode = True and dflt = default_error_type and result_type = ex_result_type,
          OF c refl sh _ en l ex_batch_simulated ex_batch_rows]
  have a: "\<exists>r. forward_in_fhe default_error_type ex_result_type ex_two_mode_module [ex_batch] True = Inr r
       \<and> shape r = [2, 2]
       \<and> getitem r 0 = Inr \<lparr>dtype = Int64, shape = [2], data = [1, 2]\<rparr>
       \<and> getitem r 1 = Inr \<lparr>dtype = Int64, shape = [2], data = [3, 4]\<rparr>"
    unfolding t by (auto simp: numeral_2_eq_2)
  from forward_in_fhe_batch_order
         [where simulate_mode = False and dflt = default_error_type and result_type = ex_result_type,
          OF c refl sh _ en l ex_batch_encrypted ex_batch_rows]
  have b: "\<exists>r. forward_in_fhe default_error_type ex_result_type ex_two_mode_module [ex_batch] False = Inr r
       \<and> shape r = [2, 2]
       \<and> getitem r 0 = Inr \<lparr>dtype = Int64, shape = [2], data = [11, 12]\<rparr>
       \<and> getitem r 1 = Inr \<lparr>dtype = Int64, shape = [2], data = [13, 14]\<rparr>"
    unfolding t by (auto simp: numeral_2_eq_2)
  from a b show ?thesis by blast
qed

end
